theory Spec2Isabelle
  imports Main "HOL-Library.Sublist" "HOL-Library.Word"
begin

section \<open>Data model\<close>

text \<open>
  The Go struct \<^verbatim>\<open>Client\<close> (\<^verbatim>\<open>src/internal/splunk/splunk.go\<close>, lines 13-19; the same
  declaration stands in \<^verbatim>\<open>src/main.go\<close>, \<^verbatim>\<open>src/unnamed/part_000\<close> and
  \<^verbatim>\<open>src/unnamed/part_002\<close>). The field \<^verbatim>\<open>HTTPClient\<close> is the transport; its behaviour
  is the component \<open>Do\<close> of the environment below. Go strings are byte sequences:
  \<open>string\<close>.
\<close>

record Client =
  BaseURL :: string
  Username :: string
  Password :: string
  Token :: string

text \<open>
  \<^verbatim>\<open>type Event struct { Time int64; Event map[string]any }\<close>. The payload type is a
  parameter \<open>'e\<close>: the library forwards it to \<^verbatim>\<open>json.Marshal\<close> and never looks inside.
\<close>

record 'e Event =
  Time :: "64 word"
  Event :: 'e

text \<open>
  The values stored in the \<^verbatim>\<open>map[string]any\<close> that \<^verbatim>\<open>SendEvents\<close> builds for one event:
  the index name (a string), the time (an int64) and the event's payload.
\<close>

datatype 'e any = AString string | AInt64 "64 word" | AEvent 'e

type_synonym 'e payload = "string \<rightharpoonup> 'e any"

text \<open>
  An \<^verbatim>\<open>*http.Request\<close> as far as the library sets it: method, URL, header fields
  (\<^verbatim>\<open>Header.Set\<close> stores one value under a key) and body. An \<^verbatim>\<open>*http.Response\<close> as far
  as the library reads it.
\<close>

record request =
  Method :: string
  URL :: string
  Header :: "string \<rightharpoonup> string"
  Body :: string

record response =
  StatusCode :: int
  Status :: string
  ResponseBody :: string

text \<open>
  Every error value the library returns. \<open>Error\<close> is the message, as Go's
  \<^verbatim>\<open>err.Error()\<close> gives it; \<^verbatim>\<open>%w\<close> and \<^verbatim>\<open>%s\<close> both print the wrapped text.
  \<open>ErrLibrary\<close> is an error of \<^verbatim>\<open>net/http\<close> or \<^verbatim>\<open>encoding/json\<close> that \<^verbatim>\<open>Search\<close> returns
  unchanged.
\<close>

datatype error =
  ErrNoCredentials
  | ErrNoAuth
  | ErrHECToken
  | ErrMarshal string
  | ErrCreateRequest string
  | ErrSend string
  | ErrSendStatus string string
  | ErrSearchStatus string
  | ErrLibrary string

fun Error :: "error \<Rightarrow> string" where
  "Error ErrNoCredentials = ''either a token or a username and password must be provided''"
| "Error ErrNoAuth = ''no authentication credentials provided''"
| "Error ErrHECToken = ''HEC requires a token for authentication''"
| "Error (ErrMarshal e) = ''failed to marshal event: '' @ e"
| "Error (ErrCreateRequest e) = ''failed to create request: '' @ e"
| "Error (ErrSend e) = ''failed to send event: '' @ e"
| "Error (ErrSendStatus st b) = ''failed to send event: '' @ st @ '' - '' @ b"
| "Error (ErrSearchStatus st) = ''search request failed: '' @ st"
| "Error (ErrLibrary e) = e"

text \<open>
  The Go standard library and the network, as parameters of the model:
  \<^item> \<open>url_error\<close>: the error of \<^verbatim>\<open>url.Parse\<close> inside \<^verbatim>\<open>http.NewRequest\<close>, if any;
  \<^item> \<open>Marshal\<close>: \<^verbatim>\<open>json.Marshal\<close> on the payload map (\<open>Inl\<close> its error);
  \<^item> \<open>base64\<close>: \<^verbatim>\<open>base64.StdEncoding.EncodeToString\<close>, used by \<^verbatim>\<open>SetBasicAuth\<close>;
  \<^item> \<open>Do\<close>: \<^verbatim>\<open>HTTPClient.Do\<close>; the answer may depend on the request and on every
    request issued before it;
  \<^item> \<open>Decode\<close>: \<^verbatim>\<open>json.NewDecoder(body).Decode\<close> into a \<^verbatim>\<open>map[string]any\<close> (type \<open>'j\<close>).
\<close>

record ('e, 'j) env =
  url_error :: "string \<Rightarrow> string option"
  Marshal :: "'e payload \<Rightarrow> string + string"
  base64 :: "string \<Rightarrow> string"
  Do :: "request list \<Rightarrow> request \<Rightarrow> string + response"
  Decode :: "string \<Rightarrow> string + 'j"

text \<open>
  The effects of a call, recorded in order: the requests handed to \<^verbatim>\<open>HTTPClient.Do\<close>,
  the payloads handed to \<^verbatim>\<open>json.Marshal\<close>, the response bodies handed to the JSON
  decoder.
\<close>

record 'e world =
  sent :: "request list"
  marshalled :: "'e payload list"
  decoded :: "string list"

section \<open>Construction\<close>

text \<open>
  \<^verbatim>\<open>NewClient\<close> of \<^verbatim>\<open>src/internal/splunk/splunk.go\<close> (lines 30-43), the same text as in
  \<^verbatim>\<open>src/unnamed/part_000\<close> and \<^verbatim>\<open>src/unnamed/part_002\<close>. The composite literal sets
  \<^verbatim>\<open>BaseURL\<close>, \<^verbatim>\<open>Username\<close>, \<^verbatim>\<open>Token\<close> and \<^verbatim>\<open>HTTPClient\<close>; \<^verbatim>\<open>Password\<close> is not
  listed, so it keeps Go's zero value, the empty string.
\<close>

definition NewClient :: "string \<Rightarrow> string \<Rightarrow> string \<Rightarrow> string \<Rightarrow> error + Client" where
  "NewClient baseURL username password token =
     (if token = [] \<and> (username = [] \<or> password = []) then Inl ErrNoCredentials
      else Inr \<lparr>BaseURL = baseURL, Username = username, Password = [], Token = token\<rparr>)"

text \<open>
  \<^verbatim>\<open>NewClient\<close> of \<^verbatim>\<open>src/main.go\<close> (lines 26-38): the same check, and a literal that
  lists \<^verbatim>\<open>Password: password\<close> as well.
\<close>

definition NewClient_main :: "string \<Rightarrow> string \<Rightarrow> string \<Rightarrow> string \<Rightarrow> error + Client" where
  "NewClient_main baseURL username password token =
     (if token = [] \<and> (username = [] \<or> password = []) then Inl ErrNoCredentials
      else Inr \<lparr>BaseURL = baseURL, Username = username, Password = password, Token = token\<rparr>)"

section \<open>Requests and authentication\<close>

text \<open>
  \<^verbatim>\<open>http.NewRequest(method, url, strings.NewReader(body))\<close>: fails when the URL does not
  parse, and otherwise gives a request with no header field set. The only method the
  library passes is the valid \<^verbatim>\<open>"POST"\<close>.
\<close>

definition NewRequest :: "('e, 'j) env \<Rightarrow> string \<Rightarrow> string \<Rightarrow> string \<Rightarrow> string + request" where
  "NewRequest env method url body =
     (case url_error env url of
        Some e \<Rightarrow> Inl e
      | None \<Rightarrow> Inr \<lparr>Method = method, URL = url, Header = Map.empty, Body = body\<rparr>)"

text \<open>\<^verbatim>\<open>req.Header.Set(key, value)\<close>.\<close>

definition Header_Set :: "string \<Rightarrow> string \<Rightarrow> request \<Rightarrow> request" where
  "Header_Set key v req = req\<lparr>Header := (Header req)(key \<mapsto> v)\<rparr>"

text \<open>
  \<^verbatim>\<open>req.SetBasicAuth(username, password)\<close> of \<^verbatim>\<open>net/http\<close>: the header
  \<^verbatim>\<open>Authorization: Basic base64(username:password)\<close>.
\<close>

definition SetBasicAuth :: "('e, 'j) env \<Rightarrow> string \<Rightarrow> string \<Rightarrow> request \<Rightarrow> request" where
  "SetBasicAuth env username password req =
     Header_Set ''Authorization'' (''Basic '' @ base64 env (username @ '':'' @ password)) req"

text \<open>
  \<^verbatim>\<open>setAuthHeader\<close> (\<^verbatim>\<open>splunk.go\<close> lines 122-132; the same text in \<^verbatim>\<open>part_000\<close> and
  \<^verbatim>\<open>part_002\<close>).
\<close>

definition setAuthHeader :: "('e, 'j) env \<Rightarrow> Client \<Rightarrow> request \<Rightarrow> error + request" where
  "setAuthHeader env c req =
     (if Token c \<noteq> [] then Inr (Header_Set ''Authorization'' (''Bearer '' @ Token c) req)
      else if Username c \<noteq> [] \<and> Password c \<noteq> [] then
        Inr (SetBasicAuth env (Username c) (Password c) req)
      else Inl ErrNoAuth)"

section \<open>Search\<close>

text \<open>
  \<^verbatim>\<open>strings.SplitN(s, sep, 2)\<close> for a one-byte separator: a string without the separator
  comes back alone, any other string is cut at the first separator into exactly two parts.
\<close>

definition SplitN2 :: "string \<Rightarrow> char \<Rightarrow> string list" where
  "SplitN2 s sep =
     (if sep \<in> set s then [takeWhile (\<lambda>x. x \<noteq> sep) s, tl (dropWhile (\<lambda>x. x \<noteq> sep) s)]
      else [s])"

text \<open>
  \<^verbatim>\<open>strings.Join(elems, sep)\<close>.
\<close>

fun Join :: "string list \<Rightarrow> string \<Rightarrow> string" where
  "Join [] sep = []"
| "Join [x] sep = x"
| "Join (x # y # ys) sep = x @ sep @ Join (y # ys) sep"

text \<open>
  The three local variables of the variadic \<^verbatim>\<open>Search\<close> (\<^verbatim>\<open>src/unnamed/part_000\<close>, lines
  58-60) and their defaults.
\<close>

record options =
  execMode :: string
  earliestTime :: string
  latestTime :: string

definition defaults :: options where
  "defaults = \<lparr>execMode = ''normal'', earliestTime = [], latestTime = []\<rparr>"

text \<open>
  One turn of the loop over the options (\<^verbatim>\<open>part_000\<close>, lines 63-77): an option that does
  not split into two parts is skipped; a key outside the \<^verbatim>\<open>switch\<close> changes nothing.
\<close>

definition applyOption :: "options \<Rightarrow> string \<Rightarrow> options" where
  "applyOption st opt =
     (case SplitN2 opt (CHR ''='') of
        [key, v] \<Rightarrow>
          (if key = ''exec_mode'' then st\<lparr>execMode := v\<rparr>
           else if key = ''earliest_time'' then st\<lparr>earliestTime := v\<rparr>
           else if key = ''latest_time'' then st\<lparr>latestTime := v\<rparr>
           else st)
      | _ \<Rightarrow> st)"

fun parseOptions :: "options \<Rightarrow> string list \<Rightarrow> options" where
  "parseOptions st [] = st"
| "parseOptions st (opt # rest) = parseOptions (applyOption st opt) rest"

text \<open>
  The slice \<^verbatim>\<open>params\<close> and the string \<^verbatim>\<open>reqBody\<close> of the variadic \<^verbatim>\<open>Search\<close>
  (\<^verbatim>\<open>part_000\<close>, lines 80-91). \<^verbatim>\<open>fmt.Sprintf("search=%s", query)\<close> copies the query as
  it is.
\<close>

definition params :: "string \<Rightarrow> options \<Rightarrow> string list" where
  "params query st =
     [''search='' @ query, ''exec_mode='' @ execMode st, ''output_mode=json'']
     @ (if earliestTime st \<noteq> [] then [''earliest_time='' @ earliestTime st] else [])
     @ (if latestTime st \<noteq> [] then [''latest_time='' @ latestTime st] else [])"

definition reqBody :: "string \<Rightarrow> string list \<Rightarrow> string" where
  "reqBody query opts = Join (params query (parseOptions defaults opts)) ''&''"

text \<open>
  \<^verbatim>\<open>parseSplunkSearchResults\<close> (\<^verbatim>\<open>splunk.go\<close> lines 135-142): the body goes to the JSON
  decoder, whose error is returned unchanged.
\<close>

definition parseSplunkSearchResults ::
  "('e, 'j) env \<Rightarrow> string \<Rightarrow> 'e world \<Rightarrow> (error + 'j) \<times> 'e world" where
  "parseSplunkSearchResults env body w =
     (case Decode env body of
        Inl e \<Rightarrow> (Inl (ErrLibrary e), w\<lparr>decoded := decoded w @ [body]\<rparr>)
      | Inr result \<Rightarrow> (Inr result, w\<lparr>decoded := decoded w @ [body]\<rparr>))"

text \<open>
  The second half of both \<^verbatim>\<open>Search\<close> functions (\<^verbatim>\<open>splunk.go\<close> lines 51-61,
  \<^verbatim>\<open>part_000\<close> lines 103-113): the request is handed to \<^verbatim>\<open>HTTPClient.Do\<close>; a transport
  error is returned unchanged; a status other than 200 is an error made of the status
  text; only a 200 response is parsed.
\<close>

definition doSearch ::
  "('e, 'j) env \<Rightarrow> request \<Rightarrow> 'e world \<Rightarrow> (error + 'j) \<times> 'e world" where
  "doSearch env req w =
     (case Do env (sent w) req of
        Inl e \<Rightarrow> (Inl (ErrLibrary e), w\<lparr>sent := sent w @ [req]\<rparr>)
      | Inr resp \<Rightarrow>
          (if StatusCode resp \<noteq> 200
           then (Inl (ErrSearchStatus (Status resp)), w\<lparr>sent := sent w @ [req]\<rparr>)
           else parseSplunkSearchResults env (ResponseBody resp) (w\<lparr>sent := sent w @ [req]\<rparr>)))"

text \<open>
  The variadic \<^verbatim>\<open>Search(query, options...)\<close> of \<^verbatim>\<open>src/unnamed/part_000\<close> (lines 56-114).
\<close>

definition Search ::
  "('e, 'j) env \<Rightarrow> Client \<Rightarrow> string \<Rightarrow> string list \<Rightarrow> 'e world \<Rightarrow> (error + 'j) \<times> 'e world" where
  "Search env c query opts w =
     (case NewRequest env ''POST'' (BaseURL c @ ''/services/search/jobs'') (reqBody query opts) of
        Inl e \<Rightarrow> (Inl (ErrLibrary e), w)
      | Inr req \<Rightarrow>
          (case setAuthHeader env c
                  (Header_Set ''Content-Type'' ''application/x-www-form-urlencoded'' req) of
             Inl e \<Rightarrow> (Inl e, w)
           | Inr req' \<Rightarrow> doSearch env req' w))"

text \<open>
  \<^verbatim>\<open>prepareHttpRequest\<close> and the one-argument \<^verbatim>\<open>Search(query)\<close> of
  \<^verbatim>\<open>src/internal/splunk/splunk.go\<close> (lines 105-119 and 45-62; the same text in
  \<^verbatim>\<open>src/unnamed/part_002\<close>). It takes no options and writes \<^verbatim>\<open>exec_mode=oneshot\<close>.
\<close>

definition prepareHttpRequest :: "('e, 'j) env \<Rightarrow> Client \<Rightarrow> string \<Rightarrow> error + request" where
  "prepareHttpRequest env c query =
     (case NewRequest env ''POST'' (BaseURL c @ ''/services/search/jobs'')
             (''search='' @ query @ ''&exec_mode=oneshot&output_mode=json'') of
        Inl e \<Rightarrow> Inl (ErrLibrary e)
      | Inr req \<Rightarrow>
          setAuthHeader env c
            (Header_Set ''Content-Type'' ''application/x-www-form-urlencoded'' req))"

definition Search_internal ::
  "('e, 'j) env \<Rightarrow> Client \<Rightarrow> string \<Rightarrow> 'e world \<Rightarrow> (error + 'j) \<times> 'e world" where
  "Search_internal env c query w =
     (case prepareHttpRequest env c query of
        Inl e \<Rightarrow> (Inl e, w)
      | Inr req \<Rightarrow> doSearch env req w)"

section \<open>Event ingestion\<close>

text \<open>
  \<^verbatim>\<open>strings.TrimRight(s, cutset)\<close>: every trailing byte that is in the cutset goes.
\<close>

definition TrimRight :: "string \<Rightarrow> string \<Rightarrow> string" where
  "TrimRight s cutset = rev (dropWhile (\<lambda>x. x \<in> set cutset) (rev s))"

definition hecURL :: "Client \<Rightarrow> string" where
  "hecURL c = TrimRight (BaseURL c) ''/'' @ ''/services/collector/event''"

text \<open>
  The map \<^verbatim>\<open>payload\<close> built for one event (\<^verbatim>\<open>splunk.go\<close> lines 72-76).
\<close>

definition payload :: "string \<Rightarrow> 'e Event \<Rightarrow> 'e payload" where
  "payload indexName event =
     [''index'' \<mapsto> AString indexName, ''time'' \<mapsto> AInt64 (Time event),
      ''event'' \<mapsto> AEvent (Event event)]"

text \<open>
  The request that \<^verbatim>\<open>SendEvents\<close> is expected to issue for a serialized payload
  (\<^verbatim>\<open>splunk.go\<close> lines 82-87): a POST to the collector URL that carries the two header
  fields and the body.
\<close>

definition hecRequest :: "Client \<Rightarrow> string \<Rightarrow> request" where
  "hecRequest c body =
     \<lparr>Method = ''POST'', URL = hecURL c,
      Header = [''Authorization'' \<mapsto> ''Splunk '' @ Token c, ''Content-Type'' \<mapsto> ''application/json''],
      Body = body\<rparr>"

text \<open>
  The body of the loop of \<^verbatim>\<open>SendEvents\<close> for one event (\<^verbatim>\<open>splunk.go\<close> lines 72-98): the
  error it returns with, if any, and the effects. \<^verbatim>\<open>io.ReadAll\<close>'s error is dropped by the
  source; \<open>ResponseBody\<close> is what it read.
\<close>

definition sendEvent ::
  "('e, 'j) env \<Rightarrow> Client \<Rightarrow> string \<Rightarrow> 'e Event \<Rightarrow> 'e world \<Rightarrow> error option \<times> 'e world" where
  "sendEvent env c indexName event w =
     (let w1 = w\<lparr>marshalled := marshalled w @ [payload indexName event]\<rparr> in
      case Marshal env (payload indexName event) of
        Inl e \<Rightarrow> (Some (ErrMarshal e), w1)
      | Inr body \<Rightarrow>
          (case NewRequest env ''POST'' (hecURL c) body of
             Inl e \<Rightarrow> (Some (ErrCreateRequest e), w1)
           | Inr req0 \<Rightarrow>
               (let req = Header_Set ''Content-Type'' ''application/json''
                            (Header_Set ''Authorization'' (''Splunk '' @ Token c) req0);
                    w2 = w1\<lparr>sent := sent w1 @ [req]\<rparr>
                in case Do env (sent w1) req of
                     Inl e \<Rightarrow> (Some (ErrSend e), w2)
                   | Inr resp \<Rightarrow>
                       (if StatusCode resp \<noteq> 200
                        then (Some (ErrSendStatus (Status resp) (ResponseBody resp)), w2)
                        else (None, w2)))))"

text \<open>
  The loop \<^verbatim>\<open>for _, event := range events\<close> and \<^verbatim>\<open>SendEvents\<close> itself (\<^verbatim>\<open>splunk.go\<close>
  lines 65-102; the same text in \<^verbatim>\<open>part_000\<close>). \<open>None\<close> is Go's \<^verbatim>\<open>nil\<close> error.
\<close>

fun SendEvents_loop ::
  "('e, 'j) env \<Rightarrow> Client \<Rightarrow> string \<Rightarrow> 'e Event list \<Rightarrow> 'e world \<Rightarrow> error option \<times> 'e world" where
  "SendEvents_loop env c indexName [] w = (None, w)"
| "SendEvents_loop env c indexName (event # rest) w =
     (case sendEvent env c indexName event w of
        (Some e, w') \<Rightarrow> (Some e, w')
      | (None, w') \<Rightarrow> SendEvents_loop env c indexName rest w')"

definition SendEvents ::
  "('e, 'j) env \<Rightarrow> Client \<Rightarrow> string \<Rightarrow> 'e Event list \<Rightarrow> 'e world \<Rightarrow> error option \<times> 'e world" where
  "SendEvents env c indexName events w =
     (if Token c = [] then (Some ErrHECToken, w)
      else SendEvents_loop env c indexName events w)"

text \<open>
  A description used to state what \<^verbatim>\<open>SendEvents\<close> does: after the requests \<open>hist\<close>, the
  event \<open>event\<close> was delivered by the request \<open>req\<close> when its payload serialized to a
  body, \<open>req\<close> is the POST built for that body, and the transport answered it with
  status 200.
\<close>

definition delivered ::
  "('e, 'j) env \<Rightarrow> Client \<Rightarrow> string \<Rightarrow> request list \<Rightarrow> 'e Event \<Rightarrow> request \<Rightarrow> bool" where
  "delivered env c indexName hist event req =
     (case Marshal env (payload indexName event) of
        Inl e \<Rightarrow> False
      | Inr body \<Rightarrow>
          url_error env (hecURL c) = None \<and> req = hecRequest c body \<and>
          (case Do env hist req of
             Inl e \<Rightarrow> False
           | Inr resp \<Rightarrow> StatusCode resp = 200))"

text \<open>
  Its counterpart: after the requests \<open>hist\<close>, the event \<open>event\<close> failed with the error
  \<open>e\<close>, and \<open>issued\<close> are the requests issued for it. Serialization and request
  construction fail before any request; a transport error and a status other than 200
  fail after the one request for the event.
\<close>

definition failed ::
  "('e, 'j) env \<Rightarrow> Client \<Rightarrow> string \<Rightarrow> request list \<Rightarrow> 'e Event \<Rightarrow> error \<Rightarrow> request list \<Rightarrow> bool" where
  "failed env c indexName hist event e issued =
     (case Marshal env (payload indexName event) of
        Inl m \<Rightarrow> e = ErrMarshal m \<and> issued = []
      | Inr body \<Rightarrow>
          (case url_error env (hecURL c) of
             Some m \<Rightarrow> e = ErrCreateRequest m \<and> issued = []
           | None \<Rightarrow>
               issued = [hecRequest c body] \<and>
               (case Do env hist (hecRequest c body) of
                  Inl m \<Rightarrow> e = ErrSend m
                | Inr resp \<Rightarrow>
                    StatusCode resp \<noteq> 200 \<and>
                    e = ErrSendStatus (Status resp) (ResponseBody resp))))"

section \<open>Form fields of a request body\<close>

text \<open>
  How the receiving service reads a body of type
  \<^verbatim>\<open>application/x-www-form-urlencoded\<close>: the body is cut at every \<^verbatim>\<open>&\<close>, and each part is
  cut at its first \<^verbatim>\<open>=\<close> into a field name and a value. (Percent-decoding, which the
  service applies to each name and value afterwards, is left out: it changes no
  separator.) These definitions state what "the body contains the field" means; they
  are not part of the library.
\<close>

fun split_on :: "char \<Rightarrow> string \<Rightarrow> string list" where
  "split_on sep [] = [[]]"
| "split_on sep (x # xs) =
     (if x = sep then [] # split_on sep xs
      else (case split_on sep xs of
              [] \<Rightarrow> [[x]]
            | y # ys \<Rightarrow> (x # y) # ys))"

definition form_field :: "string \<Rightarrow> string \<times> string" where
  "form_field s =
     (takeWhile (\<lambda>x. x \<noteq> CHR ''='') s, drop 1 (dropWhile (\<lambda>x. x \<noteq> CHR ''='') s))"

definition form_fields :: "string \<Rightarrow> (string \<times> string) list" where
  "form_fields body = map form_field (split_on (CHR ''&'') body)"

definition has_field :: "string \<Rightarrow> string \<Rightarrow> string \<Rightarrow> bool" where
  "has_field k v body = ((k, v) \<in> set (form_fields body))"

definition omits_field :: "string \<Rightarrow> string \<Rightarrow> bool" where
  "omits_field k body = (k \<notin> set (map fst (form_fields body)))"

text \<open>
  The values that an option list supplies for a key, in order: those of the options
  \<^verbatim>\<open>key=value\<close>, cut at the first \<^verbatim>\<open>=\<close>. A description of the option list, to compare the
  loop of \<^verbatim>\<open>Search\<close> with.
\<close>

definition supplied :: "string \<Rightarrow> string list \<Rightarrow> string list" where
  "supplied k opts =
     map (\<lambda>opt. snd (form_field opt))
       (filter (\<lambda>opt. CHR ''='' \<in> set opt \<and> fst (form_field opt) = k) opts)"

section \<open>A concrete setting\<close>

text \<open>
  A small environment to run the model in. Events carry a string, and serialization
  gives that string back. Every URL parses. The transport answers the first request of
  a run with 200 and every later one with 400. The decoder takes the body \<^verbatim>\<open>{}\<close>
  only.
\<close>

definition example_env :: "(string, unit) env" where
  "example_env =
     \<lparr>url_error = (\<lambda>u. None),
      Marshal = (\<lambda>p. case p ''event'' of Some (AEvent s) \<Rightarrow> Inr s | _ \<Rightarrow> Inl ''unsupported type''),
      base64 = (\<lambda>s. s),
      Do = (\<lambda>hist req.
              if hist = [] then Inr \<lparr>StatusCode = 200, Status = ''200 OK'', ResponseBody = ''{}''\<rparr>
              else Inr \<lparr>StatusCode = 400, Status = ''400 Bad Request'', ResponseBody = ''fail''\<rparr>),
      Decode = (\<lambda>b. if b = ''{}'' then Inr () else Inl ''invalid character'')\<rparr>"

definition example_world :: "string world" where
  "example_world = \<lparr>sent = [], marshalled = [], decoded = []\<rparr>"

definition token_client :: Client where
  "token_client =
     \<lparr>BaseURL = ''http://localhost:8089/'', Username = ''user'', Password = ''pass'',
      Token = ''tok''\<rparr>"

definition basic_client :: Client where
  "basic_client =
     \<lparr>BaseURL = ''http://localhost:8089'', Username = ''user'', Password = ''pass'',
      Token = []\<rparr>"

definition empty_client :: Client where
  "empty_client = \<lparr>BaseURL = ''http://localhost:8089'', Username = [], Password = [], Token = []\<rparr>"

definition example_request :: request where
  "example_request = \<lparr>Method = ''GET'', URL = ''http://example.com'', Header = Map.empty, Body = []\<rparr>"

definition busy_world :: "string world" where
  "busy_world = \<lparr>sent = [example_request], marshalled = [], decoded = []\<rparr>"

definition example_search_request :: "string \<Rightarrow> request" where
  "example_search_request body =
     \<lparr>Method = ''POST'', URL = ''http://localhost:8089//services/search/jobs'',
      Header = [''Content-Type'' \<mapsto> ''application/x-www-form-urlencoded'',
                ''Authorization'' \<mapsto> ''Bearer tok''],
      Body = body\<rparr>"

definition example_events :: "string Event list" where
  "example_events = [\<lparr>Time = 1, Event = ''first''\<rparr>, \<lparr>Time = 2, Event = ''second''\<rparr>]"

section \<open>Theorems\<close>

text \<open>
  C5. \<open>NewClient\<close> fails, with the configuration error, exactly when the token is
  empty and the username or the password is empty; a non-empty token, or a non-empty
  username with a non-empty password, makes construction succeed.
\<close>

theorem NewClient_fails_iff:
  "(NewClient baseURL username password token = Inl ErrNoCredentials)
     = (token = [] \<and> (username = [] \<or> password = []))
   \<and> ((\<exists>c. NewClient baseURL username password token = Inr c)
     = ((username \<noteq> [] \<and> password \<noteq> []) \<or> token \<noteq> []))
   \<and> ((\<exists>e. NewClient baseURL username password token = Inl e)
     = (token = [] \<and> (username = [] \<or> password = [])))"
  by (auto simp: NewClient_def)

subsection \<open>Event ingestion\<close>

text \<open>
  The loop body, with \<^verbatim>\<open>http.NewRequest\<close> and the two \<^verbatim>\<open>Header.Set\<close> calls evaluated: the
  request handed to the transport is \<open>hecRequest c body\<close>.
\<close>

lemma sendEvent_cases:
  "sendEvent env c idx ev w =
     (case Marshal env (payload idx ev) of
        Inl e \<Rightarrow> (Some (ErrMarshal e), w\<lparr>marshalled := marshalled w @ [payload idx ev]\<rparr>)
      | Inr body \<Rightarrow>
          (case url_error env (hecURL c) of
             Some e \<Rightarrow> (Some (ErrCreateRequest e), w\<lparr>marshalled := marshalled w @ [payload idx ev]\<rparr>)
           | None \<Rightarrow>
               (case Do env (sent w) (hecRequest c body) of
                  Inl e \<Rightarrow> (Some (ErrSend e),
                     w\<lparr>marshalled := marshalled w @ [payload idx ev], sent := sent w @ [hecRequest c body]\<rparr>)
                | Inr resp \<Rightarrow>
                    (if StatusCode resp \<noteq> 200
                     then (Some (ErrSendStatus (Status resp) (ResponseBody resp)),
                       w\<lparr>marshalled := marshalled w @ [payload idx ev], sent := sent w @ [hecRequest c body]\<rparr>)
                     else (None,
                       w\<lparr>marshalled := marshalled w @ [payload idx ev], sent := sent w @ [hecRequest c body]\<rparr>)))))"
  by (cases "Marshal env (payload idx ev)"; cases "url_error env (hecURL c)";
      simp add: sendEvent_def Let_def NewRequest_def Header_Set_def hecRequest_def split: sum.splits)

lemma sendEvent_None:
  assumes "sendEvent env c idx ev w = (None, w1)"
  shows "\<exists>req. delivered env c idx (sent w) ev req \<and> sent w1 = sent w @ [req] \<and>
           marshalled w1 = marshalled w @ [payload idx ev] \<and> decoded w1 = decoded w"
proof (cases "Marshal env (payload idx ev)")
  case (Inl m)
  with assms show ?thesis by (simp add: sendEvent_cases)
next
  case (Inr b)
  with assms show ?thesis
    by (intro exI [of _ "hecRequest c b"])
       (auto simp: sendEvent_cases delivered_def split: sum.splits option.splits if_splits)
qed

lemma sendEvent_Some:
  assumes "sendEvent env c idx ev w = (Some e, w1)"
  shows "\<exists>issued. failed env c idx (sent w) ev e issued \<and> sent w1 = sent w @ issued \<and>
           marshalled w1 = marshalled w @ [payload idx ev] \<and> decoded w1 = decoded w"
proof (cases "Marshal env (payload idx ev)")
  case (Inl m)
  with assms show ?thesis
    by (intro exI [of _ "[]"]) (auto simp: sendEvent_cases failed_def)
next
  case (Inr b)
  show ?thesis
  proof (cases "url_error env (hecURL c)")
    case None
    with assms Inr show ?thesis
      by (intro exI [of _ "[hecRequest c b]"])
         (auto simp: sendEvent_cases failed_def split: sum.splits if_splits)
  next
    case (Some m)
    with assms Inr show ?thesis
      by (intro exI [of _ "[]"]) (auto simp: sendEvent_cases failed_def)
  qed
qed

lemma loop_success:
  "SendEvents_loop env c idx events w = (None, w') \<Longrightarrow>
   \<exists>reqs. length reqs = length events \<and> sent w' = sent w @ reqs \<and>
     marshalled w' = marshalled w @ map (payload idx) events \<and> decoded w' = decoded w \<and>
     (\<forall>i<length events. delivered env c idx (sent w @ take i reqs) (events ! i) (reqs ! i))"
proof (induction events arbitrary: w)
  case Nil
  then show ?case by simp
next
  case (Cons ev evs)
  from Cons.prems obtain w1 where
    one: "sendEvent env c idx ev w = (None, w1)" and
    rest: "SendEvents_loop env c idx evs w1 = (None, w')"
    by (auto split: prod.splits option.splits)
  from sendEvent_None [OF one] obtain req where
    d: "delivered env c idx (sent w) ev req" and
    w1: "sent w1 = sent w @ [req]" "marshalled w1 = marshalled w @ [payload idx ev]"
      "decoded w1 = decoded w"
    by blast
  from Cons.IH [OF rest] obtain reqs where
    len: "length reqs = length evs" and
    s: "sent w' = sent w1 @ reqs" and
    m: "marshalled w' = marshalled w1 @ map (payload idx) evs" and
    dc: "decoded w' = decoded w1" and
    all: "\<forall>i<length evs. delivered env c idx (sent w1 @ take i reqs) (evs ! i) (reqs ! i)"
    by blast
  let ?reqs = "req # reqs"
  have "length ?reqs = length (ev # evs)" using len by simp
  moreover have "sent w' = sent w @ ?reqs" using s w1 by simp
  moreover have "marshalled w' = marshalled w @ map (payload idx) (ev # evs)" using m w1 by simp
  moreover have "decoded w' = decoded w" using dc w1 by simp
  moreover have "\<forall>i<length (ev # evs). delivered env c idx (sent w @ take i ?reqs) ((ev # evs) ! i) (?reqs ! i)"
    using d all w1 by (simp add: All_less_Suc2)
  ultimately show ?case by blast
qed

lemma loop_failure:
  "SendEvents_loop env c idx events w = (Some e, w') \<Longrightarrow>
   \<exists>N reqs. N < length events \<and> sent w' = sent w @ reqs \<and>
     marshalled w' = marshalled w @ map (payload idx) (take (Suc N) events) \<and>
     decoded w' = decoded w \<and>
     (\<forall>i<N. delivered env c idx (sent w @ take i reqs) (events ! i) (reqs ! i)) \<and>
     failed env c idx (sent w @ take N reqs) (events ! N) e (drop N reqs)"
proof (induction events arbitrary: w)
  case Nil
  then show ?case by simp
next
  case (Cons ev evs)
  show ?case
  proof (cases "fst (sendEvent env c idx ev w)")
    case (Some e1)
    with Cons.prems have one: "sendEvent env c idx ev w = (Some e, w')"
      by (auto split: prod.splits option.splits)
    from sendEvent_Some [OF one] obtain issued where
      f: "failed env c idx (sent w) ev e issued" and
      w1: "sent w' = sent w @ issued" "marshalled w' = marshalled w @ [payload idx ev]"
        "decoded w' = decoded w"
      by blast
    show ?thesis
      using f w1 by (intro exI [of _ 0] exI [of _ issued]) simp
  next
    case None
    with Cons.prems obtain w1 where
      one: "sendEvent env c idx ev w = (None, w1)" and
      rest: "SendEvents_loop env c idx evs w1 = (Some e, w')"
      by (auto split: prod.splits option.splits)
    from sendEvent_None [OF one] obtain req where
      d: "delivered env c idx (sent w) ev req" and
      w1: "sent w1 = sent w @ [req]" "marshalled w1 = marshalled w @ [payload idx ev]"
        "decoded w1 = decoded w"
      by blast
    from Cons.IH [OF rest] obtain N reqs where
      n: "N < length evs" and
      s: "sent w' = sent w1 @ reqs" and
      m: "marshalled w' = marshalled w1 @ map (payload idx) (take (Suc N) evs)" and
      dc: "decoded w' = decoded w1" and
      all: "\<forall>i<N. delivered env c idx (sent w1 @ take i reqs) (evs ! i) (reqs ! i)" and
      f: "failed env c idx (sent w1 @ take N reqs) (evs ! N) e (drop N reqs)"
      by blast
    show ?thesis
      using n s m dc all f d w1
      by (intro exI [of _ "Suc N"] exI [of _ "req # reqs"]) (simp add: All_less_Suc2)
  qed
qed


lemma delivered_request:
  assumes "delivered env c idx hist ev req"
  shows "Method req = ''POST'' \<and> URL req = hecURL c \<and>
         Marshal env (payload idx ev) = Inr (Body req)"
  using assms by (auto simp: delivered_def hecRequest_def split: sum.splits)

lemma failed_request:
  assumes "failed env c idx hist ev e (drop N reqs)" and "N \<le> i" and "i < length reqs"
  shows "i = N \<and> Method (reqs ! i) = ''POST'' \<and> URL (reqs ! i) = hecURL c \<and>
         Marshal env (payload idx ev) = Inr (Body (reqs ! i))"
proof -
  from assms(2,3) have ne: "drop N reqs \<noteq> []" by simp
  with assms(1) obtain b where
    b: "Marshal env (payload idx ev) = Inr b" and d: "drop N reqs = [hecRequest c b]"
    by (auto simp: failed_def split: sum.splits option.splits)
  from d have "length (drop N reqs) = 1" by simp
  with assms(2,3) have i: "i = N" by simp
  from d assms(3) i have "reqs ! N = hecRequest c b"
    by (metis Cons_nth_drop_Suc list.inject)
  with i b show ?thesis by (simp add: hecRequest_def)
qed

text \<open>
  C1. With a non-empty token, \<open>SendEvents\<close> works through the events in input order.
  The requests it issues, \<open>reqs\<close>, are appended to the log one per event: request \<open>i\<close>
  is a POST to the collector URL whose body is the serialization of the payload made of
  the index name, the time and the payload of event \<open>i\<close>, and it is issued after exactly
  the requests for the events before it. When the call returns no error, every event
  was delivered by its own request. When it returns the error \<open>e\<close>, there is a first
  failing event \<open>N\<close>: the events before it were delivered, each by one request; \<open>e\<close> is
  the error of event \<open>N\<close> (serialization, request construction, transport, or a status
  other than 200, see \<open>failed\<close>); event \<open>N\<close> got at most one request; and nothing was
  serialized or issued for the events after \<open>N\<close>. No request is repeated or taken
  back, and nothing is decoded.
\<close>

theorem SendEvents_sequential:
  assumes "Token c \<noteq> []" and "SendEvents env c indexName events w = (r, w')"
  shows "\<exists>reqs. sent w' = sent w @ reqs \<and> decoded w' = decoded w \<and>
           (\<forall>i<length reqs. i < length events \<and> Method (reqs ! i) = ''POST'' \<and>
              URL (reqs ! i) = hecURL c \<and>
              Marshal env (payload indexName (events ! i)) = Inr (Body (reqs ! i))) \<and>
           (case r of
              None \<Rightarrow>
                length reqs = length events \<and>
                marshalled w' = marshalled w @ map (payload indexName) events \<and>
                (\<forall>i<length events.
                   delivered env c indexName (sent w @ take i reqs) (events ! i) (reqs ! i))
            | Some e \<Rightarrow>
                (\<exists>N<length events.
                   marshalled w' = marshalled w @ map (payload indexName) (take (Suc N) events) \<and>
                   (\<forall>i<N. delivered env c indexName (sent w @ take i reqs) (events ! i) (reqs ! i)) \<and>
                   failed env c indexName (sent w @ take N reqs) (events ! N) e (drop N reqs)))"
proof -
  from assms have loop: "SendEvents_loop env c indexName events w = (r, w')"
    by (simp add: SendEvents_def)
  show ?thesis
  proof (cases r)
    case None
    from loop_success [OF loop [unfolded None]] obtain reqs where
      len: "length reqs = length events" and
      s: "sent w' = sent w @ reqs" and
      m: "marshalled w' = marshalled w @ map (payload indexName) events" and
      dc: "decoded w' = decoded w" and
      all: "\<forall>i<length events.
              delivered env c indexName (sent w @ take i reqs) (events ! i) (reqs ! i)"
      by blast
    have shape: "\<forall>i<length reqs. i < length events \<and> Method (reqs ! i) = ''POST'' \<and>
        URL (reqs ! i) = hecURL c \<and>
        Marshal env (payload indexName (events ! i)) = Inr (Body (reqs ! i))"
      using all len delivered_request by fastforce
    show ?thesis using None len s m dc all shape by (intro exI [of _ reqs]) simp
  next
    case (Some e)
    from loop_failure [OF loop [unfolded Some]] obtain N reqs where
      n: "N < length events" and
      s: "sent w' = sent w @ reqs" and
      m: "marshalled w' = marshalled w @ map (payload indexName) (take (Suc N) events)" and
      dc: "decoded w' = decoded w" and
      all: "\<forall>i<N. delivered env c indexName (sent w @ take i reqs) (events ! i) (reqs ! i)" and
      f: "failed env c indexName (sent w @ take N reqs) (events ! N) e (drop N reqs)"
      by blast
    have shape: "\<forall>i<length reqs. i < length events \<and> Method (reqs ! i) = ''POST'' \<and>
        URL (reqs ! i) = hecURL c \<and>
        Marshal env (payload indexName (events ! i)) = Inr (Body (reqs ! i))"
    proof (intro allI impI)
      fix i assume i: "i < length reqs"
      show "i < length events \<and> Method (reqs ! i) = ''POST'' \<and> URL (reqs ! i) = hecURL c \<and>
        Marshal env (payload indexName (events ! i)) = Inr (Body (reqs ! i))"
      proof (cases "i < N")
        case True
        with all n delivered_request [of env c indexName _ "events ! i" "reqs ! i"]
        show ?thesis by auto
      next
        case False
        then have "N \<le> i" by simp
        from failed_request [OF f this i] n show ?thesis by auto
      qed
    qed
    show ?thesis using Some n s m dc all f shape by (intro exI [of _ reqs]) auto
  qed
qed

lemma SendEvents_example_run:
  "SendEvents example_env token_client ''main'' example_events example_world =
     (Some (ErrSendStatus ''400 Bad Request'' ''fail''),
      \<lparr>sent = [hecRequest token_client ''first'', hecRequest token_client ''second''],
       marshalled = [payload ''main'' \<lparr>Time = 1, Event = ''first''\<rparr>,
                     payload ''main'' \<lparr>Time = 2, Event = ''second''\<rparr>],
       decoded = []\<rparr>)"
  by (simp add: SendEvents_def sendEvent_cases example_env_def example_world_def
      example_events_def token_client_def payload_def)

theorem SendEvents_sequential_witness:
  "Token token_client \<noteq> [] \<and>
   SendEvents example_env token_client ''main'' example_events example_world =
     (Some (ErrSendStatus ''400 Bad Request'' ''fail''),
      \<lparr>sent = [hecRequest token_client ''first'', hecRequest token_client ''second''],
       marshalled = [payload ''main'' \<lparr>Time = 1, Event = ''first''\<rparr>,
                     payload ''main'' \<lparr>Time = 2, Event = ''second''\<rparr>],
       decoded = []\<rparr>) \<and>
   (\<exists>N reqs. N < length example_events \<and>
      [hecRequest token_client ''first'', hecRequest token_client ''second'']
        = sent example_world @ reqs \<and>
      failed example_env token_client ''main'' (sent example_world @ take N reqs)
        (example_events ! N) (ErrSendStatus ''400 Bad Request'' ''fail'') (drop N reqs))"
proof -
  have h1: "Token token_client \<noteq> []" by (simp add: token_client_def)
  note h2 = SendEvents_example_run
  from SendEvents_sequential [OF h1 h2] show ?thesis
    using h1 h2 by auto
qed

text \<open>
  C6. With an empty token, \<open>SendEvents\<close> returns the token error at once, whatever the
  events are: the log of requests and the log of serialized payloads are unchanged.
\<close>

theorem SendEvents_no_token:
  assumes "Token c = []"
  shows "SendEvents env c indexName events w = (Some ErrHECToken, w)
         \<and> sent (snd (SendEvents env c indexName events w)) = sent w
         \<and> marshalled (snd (SendEvents env c indexName events w)) = marshalled w"
  using assms by (simp add: SendEvents_def)

theorem SendEvents_no_token_witness:
  "Token basic_client = [] \<and> example_events \<noteq> [] \<and>
   SendEvents example_env basic_client ''main'' example_events example_world
     = (Some ErrHECToken, example_world)"
proof -
  have h: "Token basic_client = []" by (simp add: basic_client_def)
  from SendEvents_no_token [OF h, of example_env "''main''" example_events example_world]
  show ?thesis using h by (simp add: example_events_def)
qed

subsection \<open>Authentication of outgoing requests\<close>

text \<open>
  Both \<open>Search\<close> functions with \<^verbatim>\<open>http.NewRequest\<close> and the \<^verbatim>\<open>Content-Type\<close> header
  evaluated.
\<close>

lemma doSearch_sent: "sent (snd (doSearch env req w)) = sent w @ [req]"
  by (simp add: doSearch_def parseSplunkSearchResults_def split: sum.splits)

lemma Search_unfold:
  "Search env c q opts w =
     (case url_error env (BaseURL c @ ''/services/search/jobs'') of
        Some e \<Rightarrow> (Inl (ErrLibrary e), w)
      | None \<Rightarrow>
          (case setAuthHeader env c
                  \<lparr>Method = ''POST'', URL = BaseURL c @ ''/services/search/jobs'',
                   Header = [''Content-Type'' \<mapsto> ''application/x-www-form-urlencoded''],
                   Body = reqBody q opts\<rparr> of
             Inl e \<Rightarrow> (Inl e, w)
           | Inr req \<Rightarrow> doSearch env req w))"
  by (cases "url_error env (BaseURL c @ ''/services/search/jobs'')")
     (simp_all add: Search_def NewRequest_def Header_Set_def)

lemma Search_internal_unfold:
  "Search_internal env c q w =
     (case url_error env (BaseURL c @ ''/services/search/jobs'') of
        Some e \<Rightarrow> (Inl (ErrLibrary e), w)
      | None \<Rightarrow>
          (case setAuthHeader env c
                  \<lparr>Method = ''POST'', URL = BaseURL c @ ''/services/search/jobs'',
                   Header = [''Content-Type'' \<mapsto> ''application/x-www-form-urlencoded''],
                   Body = ''search='' @ q @ ''&exec_mode=oneshot&output_mode=json''\<rparr> of
             Inl e \<Rightarrow> (Inl e, w)
           | Inr req \<Rightarrow> doSearch env req w))"
  by (cases "url_error env (BaseURL c @ ''/services/search/jobs'')")
     (simp_all add: Search_internal_def prepareHttpRequest_def NewRequest_def Header_Set_def)

lemma setAuthHeader_token:
  "Token c \<noteq> [] \<Longrightarrow>
   setAuthHeader env c req = Inr (req\<lparr>Header := (Header req)(''Authorization'' \<mapsto> ''Bearer '' @ Token c)\<rparr>)"
  by (simp add: setAuthHeader_def Header_Set_def)

lemma setAuthHeader_basic:
  "Token c = [] \<Longrightarrow> Username c \<noteq> [] \<Longrightarrow> Password c \<noteq> [] \<Longrightarrow>
   setAuthHeader env c req =
     Inr (req\<lparr>Header := (Header req)(''Authorization'' \<mapsto>
            ''Basic '' @ base64 env (Username c @ '':'' @ Password c))\<rparr>)"
  by (simp add: setAuthHeader_def SetBasicAuth_def Header_Set_def)

lemma setAuthHeader_none:
  "Token c = [] \<Longrightarrow> Username c = [] \<or> Password c = [] \<Longrightarrow>
   setAuthHeader env c req = Inl ErrNoAuth"
  by (auto simp: setAuthHeader_def)

lemma Search_sent_auth:
  assumes "\<And>req. \<exists>req'. setAuthHeader env c req = Inr req' \<and> Header req' ''Authorization'' = Some v"
  shows "sent (snd (Search env c q opts w)) = sent w \<or>
         (\<exists>req. sent (snd (Search env c q opts w)) = sent w @ [req] \<and>
                Header req ''Authorization'' = Some v)"
proof (cases "url_error env (BaseURL c @ ''/services/search/jobs'')")
  case None
  let ?r = "\<lparr>Method = ''POST'', URL = BaseURL c @ ''/services/search/jobs'',
                   Header = [''Content-Type'' \<mapsto> ''application/x-www-form-urlencoded''],
                   Body = reqBody q opts\<rparr>"
  from assms [of ?r] obtain req' where
    "setAuthHeader env c ?r = Inr req'" "Header req' ''Authorization'' = Some v" by blast
  with None show ?thesis by (simp add: Search_unfold doSearch_sent)
next
  case (Some e)
  then show ?thesis by (simp add: Search_unfold)
qed

lemma Search_internal_sent_auth:
  assumes "\<And>req. \<exists>req'. setAuthHeader env c req = Inr req' \<and> Header req' ''Authorization'' = Some v"
  shows "sent (snd (Search_internal env c q w)) = sent w \<or>
         (\<exists>req. sent (snd (Search_internal env c q w)) = sent w @ [req] \<and>
                Header req ''Authorization'' = Some v)"
proof (cases "url_error env (BaseURL c @ ''/services/search/jobs'')")
  case None
  let ?r = "\<lparr>Method = ''POST'', URL = BaseURL c @ ''/services/search/jobs'',
                   Header = [''Content-Type'' \<mapsto> ''application/x-www-form-urlencoded''],
                   Body = ''search='' @ q @ ''&exec_mode=oneshot&output_mode=json''\<rparr>"
  from assms [of ?r] obtain req' where
    "setAuthHeader env c ?r = Inr req'" "Header req' ''Authorization'' = Some v" by blast
  with None show ?thesis by (simp add: Search_internal_unfold doSearch_sent)
next
  case (Some e)
  then show ?thesis by (simp add: Search_internal_unfold)
qed

lemma Search_no_auth:
  assumes "Token c = []" and "Username c = [] \<or> Password c = []"
  shows "snd (Search env c q opts w) = w \<and> snd (Search_internal env c q w) = w \<and>
         (url_error env (BaseURL c @ ''/services/search/jobs'') = None \<longrightarrow>
            fst (Search env c q opts w) = Inl ErrNoAuth \<and>
            fst (Search_internal env c q w) = Inl ErrNoAuth)"
  using assms
  by (cases "url_error env (BaseURL c @ ''/services/search/jobs'')")
     (simp_all add: Search_unfold Search_internal_unfold setAuthHeader_none)


lemma sendEvent_sent:
  "\<exists>issued. sent (snd (sendEvent env c idx ev w)) = sent w @ issued \<and>
     (\<forall>x\<in>set issued. \<exists>b. x = hecRequest c b)"
proof (cases "Marshal env (payload idx ev)")
  case (Inl m)
  then show ?thesis by (intro exI [of _ "[]"]) (simp add: sendEvent_cases)
next
  case (Inr b)
  show ?thesis
  proof (cases "url_error env (hecURL c)")
    case None
    with Inr show ?thesis
      by (intro exI [of _ "[hecRequest c b]"]) (auto simp: sendEvent_cases split: sum.splits)
  next
    case (Some m)
    with Inr show ?thesis by (intro exI [of _ "[]"]) (simp add: sendEvent_cases)
  qed
qed

lemma loop_requests:
  "\<exists>reqs. sent (snd (SendEvents_loop env c idx events w)) = sent w @ reqs \<and>
     (\<forall>x\<in>set reqs. \<exists>b. x = hecRequest c b)"
proof (induction events arbitrary: w)
  case Nil
  show ?case by simp
next
  case (Cons ev evs)
  obtain r1 w1 where one: "sendEvent env c idx ev w = (r1, w1)" by (cases "sendEvent env c idx ev w")
  from sendEvent_sent [of env c idx ev w] one obtain issued where
    i: "sent w1 = sent w @ issued" "\<forall>x\<in>set issued. \<exists>b. x = hecRequest c b" by auto
  show ?case
  proof (cases r1)
    case None
    from Cons.IH [of w1] obtain reqs where
      r: "sent (snd (SendEvents_loop env c idx evs w1)) = sent w1 @ reqs"
         "\<forall>x\<in>set reqs. \<exists>b. x = hecRequest c b" by blast
    with i one None show ?thesis
      by (intro exI [of _ "issued @ reqs"]) auto
  next
    case (Some e)
    with i one show ?thesis by (intro exI [of _ issued]) auto
  qed
qed

text \<open>
  C4. For every client, \<open>setAuthHeader\<close> takes exactly one of three branches, in this
  order. A non-empty token: the request gets the header \<^verbatim>\<open>Authorization: Bearer token\<close>,
  which is not basic authentication, whatever the username and the password are. An
  empty token with a non-empty username and a non-empty password: the request gets HTTP
  basic authentication. Otherwise: the authentication error. A search (either
  \<open>Search\<close> function) issues at most one request, and that request carries the header
  of the branch; in the third branch the search issues no request, and returns the
  authentication error whenever the request itself could be built.
\<close>

theorem setAuthHeader_branches:
  "(Token c \<noteq> [] \<longrightarrow>
      setAuthHeader env c req = Inr (Header_Set ''Authorization'' (''Bearer '' @ Token c) req)
      \<and> Header (Header_Set ''Authorization'' (''Bearer '' @ Token c) req) ''Authorization''
          = Some (''Bearer '' @ Token c)
      \<and> \<not> prefix ''Basic '' (''Bearer '' @ Token c)
      \<and> (sent (snd (Search env c q opts w)) = sent w
         \<or> (\<exists>r. sent (snd (Search env c q opts w)) = sent w @ [r]
                \<and> Header r ''Authorization'' = Some (''Bearer '' @ Token c)))
      \<and> (sent (snd (Search_internal env c q w)) = sent w
         \<or> (\<exists>r. sent (snd (Search_internal env c q w)) = sent w @ [r]
                \<and> Header r ''Authorization'' = Some (''Bearer '' @ Token c))))
   \<and> (Token c = [] \<and> Username c \<noteq> [] \<and> Password c \<noteq> [] \<longrightarrow>
      setAuthHeader env c req = Inr (SetBasicAuth env (Username c) (Password c) req)
      \<and> Header (SetBasicAuth env (Username c) (Password c) req) ''Authorization''
          = Some (''Basic '' @ base64 env (Username c @ '':'' @ Password c))
      \<and> (sent (snd (Search env c q opts w)) = sent w
         \<or> (\<exists>r. sent (snd (Search env c q opts w)) = sent w @ [r]
                \<and> Header r ''Authorization''
                    = Some (''Basic '' @ base64 env (Username c @ '':'' @ Password c))))
      \<and> (sent (snd (Search_internal env c q w)) = sent w
         \<or> (\<exists>r. sent (snd (Search_internal env c q w)) = sent w @ [r]
                \<and> Header r ''Authorization''
                    = Some (''Basic '' @ base64 env (Username c @ '':'' @ Password c)))))
   \<and> (Token c = [] \<and> (Username c = [] \<or> Password c = []) \<longrightarrow>
      setAuthHeader env c req = Inl ErrNoAuth
      \<and> snd (Search env c q opts w) = w
      \<and> snd (Search_internal env c q w) = w
      \<and> (url_error env (BaseURL c @ ''/services/search/jobs'') = None \<longrightarrow>
           fst (Search env c q opts w) = Inl ErrNoAuth
           \<and> fst (Search_internal env c q w) = Inl ErrNoAuth))"
proof (intro conjI impI)
  assume t: "Token c \<noteq> []"
  show "setAuthHeader env c req = Inr (Header_Set ''Authorization'' (''Bearer '' @ Token c) req)"
    using t by (simp add: setAuthHeader_def)
  show "Header (Header_Set ''Authorization'' (''Bearer '' @ Token c) req) ''Authorization''
          = Some (''Bearer '' @ Token c)"
    by (simp add: Header_Set_def)
  show "\<not> prefix ''Basic '' (''Bearer '' @ Token c)" by simp
  have a: "\<And>req. \<exists>req'. setAuthHeader env c req = Inr req' \<and>
      Header req' ''Authorization'' = Some (''Bearer '' @ Token c)"
    using t by (simp add: setAuthHeader_token)
  show "sent (snd (Search env c q opts w)) = sent w
         \<or> (\<exists>r. sent (snd (Search env c q opts w)) = sent w @ [r]
                \<and> Header r ''Authorization'' = Some (''Bearer '' @ Token c))"
    by (rule Search_sent_auth [OF a])
  show "sent (snd (Search_internal env c q w)) = sent w
         \<or> (\<exists>r. sent (snd (Search_internal env c q w)) = sent w @ [r]
                \<and> Header r ''Authorization'' = Some (''Bearer '' @ Token c))"
    by (rule Search_internal_sent_auth [OF a])
next
  assume b: "Token c = [] \<and> Username c \<noteq> [] \<and> Password c \<noteq> []"
  show "setAuthHeader env c req = Inr (SetBasicAuth env (Username c) (Password c) req)"
    using b by (simp add: setAuthHeader_def)
  show "Header (SetBasicAuth env (Username c) (Password c) req) ''Authorization''
          = Some (''Basic '' @ base64 env (Username c @ '':'' @ Password c))"
    by (simp add: SetBasicAuth_def Header_Set_def)
  have a: "\<And>req. \<exists>req'. setAuthHeader env c req = Inr req' \<and>
      Header req' ''Authorization'' = Some (''Basic '' @ base64 env (Username c @ '':'' @ Password c))"
    using b by (simp add: setAuthHeader_basic)
  show "sent (snd (Search env c q opts w)) = sent w
         \<or> (\<exists>r. sent (snd (Search env c q opts w)) = sent w @ [r]
                \<and> Header r ''Authorization''
                    = Some (''Basic '' @ base64 env (Username c @ '':'' @ Password c)))"
    by (rule Search_sent_auth [OF a])
  show "sent (snd (Search_internal env c q w)) = sent w
         \<or> (\<exists>r. sent (snd (Search_internal env c q w)) = sent w @ [r]
                \<and> Header r ''Authorization''
                    = Some (''Basic '' @ base64 env (Username c @ '':'' @ Password c)))"
    by (rule Search_internal_sent_auth [OF a])
next
  assume n: "Token c = [] \<and> (Username c = [] \<or> Password c = [])"
  then have n1: "Token c = []" and n2: "Username c = [] \<or> Password c = []" by simp_all
  show "setAuthHeader env c req = Inl ErrNoAuth" by (rule setAuthHeader_none [OF n1 n2])
  show "snd (Search env c q opts w) = w" using Search_no_auth [OF n1 n2] by blast
  show "snd (Search_internal env c q w) = w" using Search_no_auth [OF n1 n2] by blast
  assume u: "url_error env (BaseURL c @ ''/services/search/jobs'') = None"
  show "fst (Search env c q opts w) = Inl ErrNoAuth"
    using Search_no_auth [OF n1 n2] u by blast
  show "fst (Search_internal env c q w) = Inl ErrNoAuth"
    using Search_no_auth [OF n1 n2] u by blast
qed


lemma Search_example_run:
  "Search example_env token_client ''q'' [] example_world =
     (Inr (),
      \<lparr>sent = [\<lparr>Method = ''POST'', URL = ''http://localhost:8089//services/search/jobs'',
                Header = [''Content-Type'' \<mapsto> ''application/x-www-form-urlencoded'',
                          ''Authorization'' \<mapsto> ''Bearer tok''],
                Body = ''search=q&exec_mode=normal&output_mode=json''\<rparr>],
       marshalled = [], decoded = [''{}'']\<rparr>)"
  by (simp add: Search_unfold setAuthHeader_def Header_Set_def doSearch_def
      parseSplunkSearchResults_def reqBody_def params_def defaults_def
      example_env_def example_world_def token_client_def)

theorem setAuthHeader_branches_witness:
  "(Token token_client \<noteq> [] \<and> Username token_client \<noteq> [] \<and> Password token_client \<noteq> [] \<and>
      setAuthHeader example_env token_client example_request
        = Inr (Header_Set ''Authorization'' ''Bearer tok'' example_request))
   \<and> (Token basic_client = [] \<and> Username basic_client \<noteq> [] \<and> Password basic_client \<noteq> [] \<and>
      setAuthHeader example_env basic_client example_request
        = Inr (SetBasicAuth example_env ''user'' ''pass'' example_request))
   \<and> (Token empty_client = [] \<and> (Username empty_client = [] \<or> Password empty_client = []) \<and>
      url_error example_env (BaseURL empty_client @ ''/services/search/jobs'') = None \<and>
      setAuthHeader example_env empty_client example_request = Inl ErrNoAuth \<and>
      Search example_env empty_client ''q'' [] example_world = (Inl ErrNoAuth, example_world) \<and>
      Search_internal example_env empty_client ''q'' example_world = (Inl ErrNoAuth, example_world))"
proof -
  have t: "Token token_client \<noteq> []" "Username token_client \<noteq> []" "Password token_client \<noteq> []"
    "''Bearer '' @ Token token_client = ''Bearer tok''"
    by (simp_all add: token_client_def)
  have b: "Token basic_client = [] \<and> Username basic_client \<noteq> [] \<and> Password basic_client \<noteq> []"
    "Username basic_client = ''user''" "Password basic_client = ''pass''"
    by (simp_all add: basic_client_def)
  have n: "Token empty_client = [] \<and> (Username empty_client = [] \<or> Password empty_client = [])"
    "url_error example_env (BaseURL empty_client @ ''/services/search/jobs'') = None"
    by (simp_all add: empty_client_def example_env_def)
  note th = setAuthHeader_branches [where env = example_env and req = example_request
      and q = "''q''" and opts = "[]" and w = example_world]
  from th [of token_client] t
  have 1: "setAuthHeader example_env token_client example_request
        = Inr (Header_Set ''Authorization'' ''Bearer tok'' example_request)" by simp
  from th [of basic_client] b
  have 2: "setAuthHeader example_env basic_client example_request
        = Inr (SetBasicAuth example_env ''user'' ''pass'' example_request)" by simp
  from th [of empty_client] n
  have 3: "setAuthHeader example_env empty_client example_request = Inl ErrNoAuth"
    "Search example_env empty_client ''q'' [] example_world = (Inl ErrNoAuth, example_world)"
    "Search_internal example_env empty_client ''q'' example_world = (Inl ErrNoAuth, example_world)"
    by (simp_all add: prod_eq_iff)
  show ?thesis using t b n 1 2 3 by simp
qed

lemma hecRequest_auth:
  "Header (hecRequest c b) ''Authorization'' = Some (''Splunk '' @ Token c)"
  by (simp add: hecRequest_def)

text \<open>
  C9. With a non-empty token, every request that a search issues carries
  \<^verbatim>\<open>Authorization: Bearer token\<close>, every request that \<open>SendEvents\<close> issues carries
  \<^verbatim>\<open>Authorization: Splunk token\<close>, and the two header values differ.
\<close>

theorem auth_schemes_distinct:
  assumes "Token c \<noteq> []"
  shows "(sent (snd (Search env c q opts w)) = sent w
          \<or> (\<exists>r. sent (snd (Search env c q opts w)) = sent w @ [r]
                 \<and> Header r ''Authorization'' = Some (''Bearer '' @ Token c)))
       \<and> (sent (snd (Search_internal env c q w)) = sent w
          \<or> (\<exists>r. sent (snd (Search_internal env c q w)) = sent w @ [r]
                 \<and> Header r ''Authorization'' = Some (''Bearer '' @ Token c)))
       \<and> (\<exists>reqs. sent (snd (SendEvents env c indexName events w)) = sent w @ reqs
                 \<and> (\<forall>r\<in>set reqs. Header r ''Authorization'' = Some (''Splunk '' @ Token c)))
       \<and> ''Bearer '' @ Token c \<noteq> ''Splunk '' @ Token c"
proof (intro conjI)
  have a: "\<And>req. \<exists>req'. setAuthHeader env c req = Inr req' \<and>
      Header req' ''Authorization'' = Some (''Bearer '' @ Token c)"
    using assms by (simp add: setAuthHeader_token)
  show "sent (snd (Search env c q opts w)) = sent w
          \<or> (\<exists>r. sent (snd (Search env c q opts w)) = sent w @ [r]
                 \<and> Header r ''Authorization'' = Some (''Bearer '' @ Token c))"
    by (rule Search_sent_auth [OF a])
  show "sent (snd (Search_internal env c q w)) = sent w
          \<or> (\<exists>r. sent (snd (Search_internal env c q w)) = sent w @ [r]
                 \<and> Header r ''Authorization'' = Some (''Bearer '' @ Token c))"
    by (rule Search_internal_sent_auth [OF a])
  from loop_requests [of env c indexName events w] obtain reqs where
    r: "sent (snd (SendEvents_loop env c indexName events w)) = sent w @ reqs"
       "\<forall>x\<in>set reqs. \<exists>b. x = hecRequest c b" by blast
  from r(2) have "\<forall>r\<in>set reqs. Header r ''Authorization'' = Some (''Splunk '' @ Token c)"
    by (auto simp: hecRequest_auth)
  with r(1) assms
  show "\<exists>reqs. sent (snd (SendEvents env c indexName events w)) = sent w @ reqs
                 \<and> (\<forall>r\<in>set reqs. Header r ''Authorization'' = Some (''Splunk '' @ Token c))"
    by (auto simp: SendEvents_def)
  show "''Bearer '' @ Token c \<noteq> ''Splunk '' @ Token c" by simp
qed

theorem auth_schemes_distinct_witness:
  "Token token_client \<noteq> []
   \<and> map (\<lambda>r. Header r ''Authorization'')
        (sent (snd (Search example_env token_client ''q'' [] example_world)))
       = [Some ''Bearer tok'']
   \<and> map (\<lambda>r. Header r ''Authorization'')
        (sent (snd (SendEvents example_env token_client ''main'' example_events example_world)))
       = [Some ''Splunk tok'', Some ''Splunk tok'']"
proof -
  have h: "Token token_client \<noteq> []" by (simp add: token_client_def)
  have s1: "map (\<lambda>r. Header r ''Authorization'')
        (sent (snd (Search example_env token_client ''q'' [] example_world)))
       = [Some ''Bearer tok'']"
    by (subst Search_example_run) simp
  have s2: "map (\<lambda>r. Header r ''Authorization'')
        (sent (snd (SendEvents example_env token_client ''main'' example_events example_world)))
       = [Some ''Splunk tok'', Some ''Splunk tok'']"
    by (subst SendEvents_example_run) (simp add: hecRequest_def token_client_def)
  from auth_schemes_distinct [OF h, of example_env "''q''" "[]" example_world "''main''" example_events]
  show ?thesis
    using h s1 s2 by blast
qed

subsection \<open>Responses to a search\<close>

lemma doSearch_non200:
  assumes "Do env (sent w) req = Inr resp" and "StatusCode resp \<noteq> 200"
  shows "doSearch env req w = (Inl (ErrSearchStatus (Status resp)), w\<lparr>sent := sent w @ [req]\<rparr>)"
  using assms by (simp add: doSearch_def)

lemma Search_issued:
  assumes "Search env c q opts w = (r, w')" and "sent w' = sent w @ [req]"
  shows "doSearch env req w = (r, w')"
proof (cases "url_error env (BaseURL c @ ''/services/search/jobs'')")
  case (Some e)
  with assms show ?thesis by (simp add: Search_unfold)
next
  case None
  show ?thesis
  proof (cases "setAuthHeader env c
                  \<lparr>Method = ''POST'', URL = BaseURL c @ ''/services/search/jobs'',
                   Header = [''Content-Type'' \<mapsto> ''application/x-www-form-urlencoded''],
                   Body = reqBody q opts\<rparr>")
    case (Inl e)
    with None assms show ?thesis by (simp add: Search_unfold)
  next
    case (Inr req')
    with None assms(1) have d: "doSearch env req' w = (r, w')" by (simp add: Search_unfold)
    from doSearch_sent [of env req' w] d assms(2) have "req' = req" by simp
    with d show ?thesis by simp
  qed
qed

lemma Search_internal_issued:
  assumes "Search_internal env c q w = (r, w')" and "sent w' = sent w @ [req]"
  shows "doSearch env req w = (r, w')"
proof (cases "url_error env (BaseURL c @ ''/services/search/jobs'')")
  case (Some e)
  with assms show ?thesis by (simp add: Search_internal_unfold)
next
  case None
  show ?thesis
  proof (cases "setAuthHeader env c
                  \<lparr>Method = ''POST'', URL = BaseURL c @ ''/services/search/jobs'',
                   Header = [''Content-Type'' \<mapsto> ''application/x-www-form-urlencoded''],
                   Body = ''search='' @ q @ ''&exec_mode=oneshot&output_mode=json''\<rparr>")
    case (Inl e)
    with None assms show ?thesis by (simp add: Search_internal_unfold)
  next
    case (Inr req')
    with None assms(1) have d: "doSearch env req' w = (r, w')"
      by (simp add: Search_internal_unfold)
    from doSearch_sent [of env req' w] d assms(2) have "req' = req" by simp
    with d show ?thesis by simp
  qed
qed

lemma Error_status_sublist: "sublist st (Error (ErrSearchStatus st))"
  unfolding Error.simps by (rule sublist_append_leftI)

text \<open>
  C8. Whenever a search (either \<open>Search\<close> function) has issued its request and the
  response has a status code other than 200, the search returns the error
  \<^verbatim>\<open>search request failed: \<close> followed by the response's status text, and the response
  body is not handed to the JSON decoder.
\<close>

theorem Search_non200:
  "(Search env c q opts w = (r, w') \<and> sent w' = sent w @ [req] \<and>
      Do env (sent w) req = Inr resp \<and> StatusCode resp \<noteq> 200
    \<longrightarrow> r = Inl (ErrSearchStatus (Status resp))
        \<and> Error (ErrSearchStatus (Status resp)) = ''search request failed: '' @ Status resp
        \<and> sublist (Status resp) (Error (ErrSearchStatus (Status resp)))
        \<and> decoded w' = decoded w)
   \<and> (Search_internal env c q w = (r, w') \<and> sent w' = sent w @ [req] \<and>
      Do env (sent w) req = Inr resp \<and> StatusCode resp \<noteq> 200
    \<longrightarrow> r = Inl (ErrSearchStatus (Status resp))
        \<and> Error (ErrSearchStatus (Status resp)) = ''search request failed: '' @ Status resp
        \<and> sublist (Status resp) (Error (ErrSearchStatus (Status resp)))
        \<and> decoded w' = decoded w)"
proof (intro conjI impI)
  assume a: "Search env c q opts w = (r, w') \<and> sent w' = sent w @ [req] \<and>
      Do env (sent w) req = Inr resp \<and> StatusCode resp \<noteq> 200"
  then have "doSearch env req w = (r, w')" using Search_issued by blast
  moreover from a have "doSearch env req w
      = (Inl (ErrSearchStatus (Status resp)), w\<lparr>sent := sent w @ [req]\<rparr>)"
    using doSearch_non200 by blast
  ultimately show "r = Inl (ErrSearchStatus (Status resp))" and "decoded w' = decoded w"
    by auto
  show "sublist (Status resp) (Error (ErrSearchStatus (Status resp)))"
    by (rule Error_status_sublist)
  show "Error (ErrSearchStatus (Status resp)) = ''search request failed: '' @ Status resp"
    by simp
next
  assume a: "Search_internal env c q w = (r, w') \<and> sent w' = sent w @ [req] \<and>
      Do env (sent w) req = Inr resp \<and> StatusCode resp \<noteq> 200"
  then have "doSearch env req w = (r, w')" using Search_internal_issued by blast
  moreover from a have "doSearch env req w
      = (Inl (ErrSearchStatus (Status resp)), w\<lparr>sent := sent w @ [req]\<rparr>)"
    using doSearch_non200 by blast
  ultimately show "r = Inl (ErrSearchStatus (Status resp))" and "decoded w' = decoded w"
    by auto
  show "sublist (Status resp) (Error (ErrSearchStatus (Status resp)))"
    by (rule Error_status_sublist)
  show "Error (ErrSearchStatus (Status resp)) = ''search request failed: '' @ Status resp"
    by simp
qed

lemma Search_busy_run:
  "Search example_env token_client ''q'' [] busy_world =
     (Inl (ErrSearchStatus ''400 Bad Request''),
      \<lparr>sent = [example_request,
               example_search_request ''search=q&exec_mode=normal&output_mode=json''],
       marshalled = [], decoded = []\<rparr>)"
  by (simp add: Search_unfold setAuthHeader_def Header_Set_def doSearch_def
      reqBody_def params_def defaults_def example_search_request_def
      example_env_def busy_world_def token_client_def)

lemma Search_internal_busy_run:
  "Search_internal example_env token_client ''q'' busy_world =
     (Inl (ErrSearchStatus ''400 Bad Request''),
      \<lparr>sent = [example_request,
               example_search_request ''search=q&exec_mode=oneshot&output_mode=json''],
       marshalled = [], decoded = []\<rparr>)"
  by (simp add: Search_internal_unfold setAuthHeader_def Header_Set_def doSearch_def
      example_search_request_def example_env_def busy_world_def token_client_def)

theorem Search_non200_witness:
  "Search example_env token_client ''q'' [] busy_world =
     (Inl (ErrSearchStatus ''400 Bad Request''),
      \<lparr>sent = [example_request,
               example_search_request ''search=q&exec_mode=normal&output_mode=json''],
       marshalled = [], decoded = []\<rparr>)
   \<and> Search_internal example_env token_client ''q'' busy_world =
     (Inl (ErrSearchStatus ''400 Bad Request''),
      \<lparr>sent = [example_request,
               example_search_request ''search=q&exec_mode=oneshot&output_mode=json''],
       marshalled = [], decoded = []\<rparr>)
   \<and> Do example_env (sent busy_world)
        (example_search_request ''search=q&exec_mode=normal&output_mode=json'')
       = Inr \<lparr>StatusCode = 400, Status = ''400 Bad Request'', ResponseBody = ''fail''\<rparr>
   \<and> Do example_env (sent busy_world)
        (example_search_request ''search=q&exec_mode=oneshot&output_mode=json'')
       = Inr \<lparr>StatusCode = 400, Status = ''400 Bad Request'', ResponseBody = ''fail''\<rparr>
   \<and> sublist ''400 Bad Request'' (Error (ErrSearchStatus ''400 Bad Request''))
   \<and> decoded busy_world = []"
proof -
  let ?resp = "\<lparr>StatusCode = 400, Status = ''400 Bad Request'', ResponseBody = ''fail''\<rparr>"
  let ?r1 = "example_search_request ''search=q&exec_mode=normal&output_mode=json''"
  let ?r2 = "example_search_request ''search=q&exec_mode=oneshot&output_mode=json''"
  let ?w1 = "\<lparr>sent = [example_request, ?r1], marshalled = [], decoded = []\<rparr> :: string world"
  let ?w2 = "\<lparr>sent = [example_request, ?r2], marshalled = [], decoded = []\<rparr> :: string world"
  have d: "Do example_env (sent busy_world) ?r1 = Inr ?resp"
    "Do example_env (sent busy_world) ?r2 = Inr ?resp"
    by (simp_all add: example_env_def busy_world_def)
  have s: "sent ?w1 = sent busy_world @ [?r1]" "sent ?w2 = sent busy_world @ [?r2]"
    "StatusCode ?resp \<noteq> 200" "decoded busy_world = []"
    by (simp_all add: busy_world_def)
  note th = Search_non200 [where env = example_env and c = token_client and q = "''q''"
      and opts = "[]" and w = busy_world and resp = ?resp
      and r = "Inl (ErrSearchStatus ''400 Bad Request'')"]
  from th [where w' = ?w1 and req = ?r1] Search_busy_run d(1) s
  have "sublist ''400 Bad Request'' (Error (ErrSearchStatus ''400 Bad Request''))"
    by simp
  moreover from th [where w' = ?w2 and req = ?r2] Search_internal_busy_run d(2) s
  have "decoded ?w2 = decoded busy_world"
    by simp
  ultimately show ?thesis
    using d s Search_busy_run Search_internal_busy_run by simp
qed

subsection \<open>The body of a search request\<close>

lemma reqBody_no_options:
  "reqBody q [] = ''search='' @ q @ ''&exec_mode=normal&output_mode=json''"
  by (simp add: reqBody_def params_def defaults_def)

lemma split_on_append:
  "sep \<notin> set xs \<Longrightarrow> split_on sep (xs @ sep # ys) = xs # split_on sep ys"
  by (induction xs) auto

lemma form_fields_no_options:
  assumes "CHR ''&'' \<notin> set q"
  shows "form_fields (reqBody q []) =
           [(''search'', q), (''exec_mode'', ''normal''), (''output_mode'', ''json'')]"
proof -
  have "CHR ''&'' \<notin> set (''search='' @ q)" using assms by simp
  from split_on_append [OF this, of "''exec_mode=normal&output_mode=json''"]
  have "split_on (CHR ''&'') (reqBody q []) =
          [''search='' @ q, ''exec_mode=normal'', ''output_mode=json'']"
    by (simp add: reqBody_no_options)
  then show ?thesis
    by (simp add: form_fields_def form_field_def)
qed

lemma setAuthHeader_Body: "setAuthHeader env c r = Inr r' \<Longrightarrow> Body r' = Body r"
  by (auto simp: setAuthHeader_def SetBasicAuth_def Header_Set_def split: if_splits)

lemma Search_body:
  assumes "sent (snd (Search env c q opts w)) = sent w @ [req]"
  shows "Body req = reqBody q opts"
proof (cases "url_error env (BaseURL c @ ''/services/search/jobs'')")
  case (Some e)
  with assms show ?thesis by (simp add: Search_unfold)
next
  case None
  let ?r = "\<lparr>Method = ''POST'', URL = BaseURL c @ ''/services/search/jobs'',
             Header = [''Content-Type'' \<mapsto> ''application/x-www-form-urlencoded''],
             Body = reqBody q opts\<rparr>"
  show ?thesis
  proof (cases "setAuthHeader env c ?r")
    case (Inl e)
    with None assms show ?thesis by (simp add: Search_unfold)
  next
    case (Inr req')
    with None assms have "req' = req" by (simp add: Search_unfold doSearch_sent)
    with setAuthHeader_Body [OF Inr] show ?thesis by simp
  qed
qed

lemma prepareHttpRequest_body:
  assumes "prepareHttpRequest env c q = Inr req"
  shows "Body req = ''search='' @ q @ ''&exec_mode=oneshot&output_mode=json''"
proof (cases "url_error env (BaseURL c @ ''/services/search/jobs'')")
  case (Some e)
  with assms show ?thesis by (simp add: prepareHttpRequest_def NewRequest_def)
next
  case None
  with assms have "setAuthHeader env c
      (Header_Set ''Content-Type'' ''application/x-www-form-urlencoded''
        \<lparr>Method = ''POST'', URL = BaseURL c @ ''/services/search/jobs'', Header = Map.empty,
         Body = ''search='' @ q @ ''&exec_mode=oneshot&output_mode=json''\<rparr>) = Inr req"
    by (simp add: prepareHttpRequest_def NewRequest_def)
  from setAuthHeader_Body [OF this] show ?thesis by (simp add: Header_Set_def)
qed

lemma Search_internal_body:
  assumes "sent (snd (Search_internal env c q w)) = sent w @ [req]"
  shows "Body req = ''search='' @ q @ ''&exec_mode=oneshot&output_mode=json''"
proof (cases "prepareHttpRequest env c q")
  case (Inl e)
  with assms show ?thesis by (simp add: Search_internal_def)
next
  case (Inr req')
  with assms have "req' = req" by (simp add: Search_internal_def doSearch_sent)
  with prepareHttpRequest_body [OF Inr] show ?thesis by simp
qed

lemma applyOption_ignored: "CHR ''='' \<notin> set opt \<Longrightarrow> applyOption st opt = st"
  by (simp add: applyOption_def SplitN2_def)

lemma applyOption_fields:
  "execMode (applyOption st opt) =
     (if CHR ''='' \<in> set opt \<and> fst (form_field opt) = ''exec_mode'' then snd (form_field opt)
      else execMode st)"
  "earliestTime (applyOption st opt) =
     (if CHR ''='' \<in> set opt \<and> fst (form_field opt) = ''earliest_time'' then snd (form_field opt)
      else earliestTime st)"
  "latestTime (applyOption st opt) =
     (if CHR ''='' \<in> set opt \<and> fst (form_field opt) = ''latest_time'' then snd (form_field opt)
      else latestTime st)"
  by (simp_all add: applyOption_def SplitN2_def form_field_def drop_Suc)

lemma parseOptions_supplied:
  "execMode (parseOptions st opts) = last (execMode st # supplied ''exec_mode'' opts)"
  "earliestTime (parseOptions st opts) = last (earliestTime st # supplied ''earliest_time'' opts)"
  "latestTime (parseOptions st opts) = last (latestTime st # supplied ''latest_time'' opts)"
  by (induction opts arbitrary: st) (simp_all add: supplied_def applyOption_fields)

lemma parseOptions_ignored:
  "parseOptions st (filter (\<lambda>opt. CHR ''='' \<in> set opt) opts) = parseOptions st opts"
  by (induction opts arbitrary: st) (simp_all add: applyOption_ignored)

lemma reqBody_eq:
  "reqBody q opts =
     ''search='' @ q @ ''&exec_mode='' @ execMode (parseOptions defaults opts) @ ''&output_mode=json''
     @ (if earliestTime (parseOptions defaults opts) \<noteq> []
        then ''&earliest_time='' @ earliestTime (parseOptions defaults opts) else [])
     @ (if latestTime (parseOptions defaults opts) \<noteq> []
        then ''&latest_time='' @ latestTime (parseOptions defaults opts) else [])"
  by (simp add: reqBody_def params_def)


text \<open>
  C3, as amended. For every query \<open>q\<close>, the variadic \<open>Search\<close> with no options builds
  exactly the body \<^verbatim>\<open>search=q&exec_mode=normal&output_mode=json\<close>, with \<open>q\<close> copied as it
  is, and that is the body of the request it issues. When \<open>q\<close> contains no \<^verbatim>\<open>&\<close>, the
  fields of that body are \<^verbatim>\<open>search\<close> with value \<open>q\<close>, \<^verbatim>\<open>exec_mode=normal\<close> and
  \<^verbatim>\<open>output_mode=json\<close>, and there is no field \<^verbatim>\<open>earliest_time\<close> or \<^verbatim>\<open>latest_time\<close>. The
  one-argument \<open>Search\<close> of \<^verbatim>\<open>src/internal/splunk\<close> sends \<^verbatim>\<open>exec_mode=oneshot\<close> in place
  of \<^verbatim>\<open>exec_mode=normal\<close>.
\<close>

theorem Search_no_options_body:
  "reqBody q [] = ''search='' @ q @ ''&exec_mode=normal&output_mode=json''
   \<and> (CHR ''&'' \<notin> set q \<longrightarrow>
        form_fields (reqBody q []) =
          [(''search'', q), (''exec_mode'', ''normal''), (''output_mode'', ''json'')]
        \<and> has_field ''search'' q (reqBody q [])
        \<and> has_field ''exec_mode'' ''normal'' (reqBody q [])
        \<and> has_field ''output_mode'' ''json'' (reqBody q [])
        \<and> omits_field ''earliest_time'' (reqBody q [])
        \<and> omits_field ''latest_time'' (reqBody q []))
   \<and> (sent (snd (Search env c q [] w)) = sent w @ [req] \<longrightarrow> Body req = reqBody q [])
   \<and> (sent (snd (Search_internal env c q w)) = sent w @ [req] \<longrightarrow>
        Body req = ''search='' @ q @ ''&exec_mode=oneshot&output_mode=json'')"
proof (intro conjI impI)
  show "reqBody q [] = ''search='' @ q @ ''&exec_mode=normal&output_mode=json''"
    by (rule reqBody_no_options)
next
  assume a: "CHR ''&'' \<notin> set q"
  note f = form_fields_no_options [OF a]
  show "form_fields (reqBody q []) =
          [(''search'', q), (''exec_mode'', ''normal''), (''output_mode'', ''json'')]"
    by (rule f)
  show "has_field ''search'' q (reqBody q [])" by (simp add: has_field_def f)
  show "has_field ''exec_mode'' ''normal'' (reqBody q [])" by (simp add: has_field_def f)
  show "has_field ''output_mode'' ''json'' (reqBody q [])" by (simp add: has_field_def f)
  show "omits_field ''earliest_time'' (reqBody q [])" by (simp add: omits_field_def f)
  show "omits_field ''latest_time'' (reqBody q [])" by (simp add: omits_field_def f)
next
  assume "sent (snd (Search env c q [] w)) = sent w @ [req]"
  then show "Body req = reqBody q []" by (rule Search_body)
next
  assume "sent (snd (Search_internal env c q w)) = sent w @ [req]"
  then show "Body req = ''search='' @ q @ ''&exec_mode=oneshot&output_mode=json''"
    by (rule Search_internal_body)
qed

lemma Search_internal_example_run:
  "Search_internal example_env token_client ''q'' example_world =
     (Inr (),
      \<lparr>sent = [example_search_request ''search=q&exec_mode=oneshot&output_mode=json''],
       marshalled = [], decoded = [''{}'']\<rparr>)"
  by (simp add: Search_internal_unfold setAuthHeader_def Header_Set_def doSearch_def
      parseSplunkSearchResults_def example_search_request_def
      example_env_def example_world_def token_client_def)

theorem Search_no_options_body_witness:
  "CHR ''&'' \<notin> set ''index=main''
   \<and> reqBody ''index=main'' [] = ''search=index=main&exec_mode=normal&output_mode=json''
   \<and> form_fields (reqBody ''index=main'' []) =
        [(''search'', ''index=main''), (''exec_mode'', ''normal''), (''output_mode'', ''json'')]
   \<and> sent (snd (Search example_env token_client ''q'' [] example_world))
        = sent example_world @ [example_search_request ''search=q&exec_mode=normal&output_mode=json'']
   \<and> sent (snd (Search_internal example_env token_client ''q'' example_world))
        = sent example_world @ [example_search_request ''search=q&exec_mode=oneshot&output_mode=json'']
   \<and> Body (example_search_request ''search=q&exec_mode=normal&output_mode=json'')
        = reqBody ''q'' []"
proof -
  have h: "CHR ''&'' \<notin> set ''index=main''" by simp
  have s1: "sent (snd (Search example_env token_client ''q'' [] example_world))
        = sent example_world @ [example_search_request ''search=q&exec_mode=normal&output_mode=json'']"
    by (subst Search_example_run) (simp add: example_search_request_def example_world_def)
  have s2: "sent (snd (Search_internal example_env token_client ''q'' example_world))
        = sent example_world @ [example_search_request ''search=q&exec_mode=oneshot&output_mode=json'']"
    by (subst Search_internal_example_run) (simp add: example_world_def)
  note th = Search_no_options_body [where q = "''index=main''" and env = example_env
      and c = token_client and w = example_world and req = example_request]
  from th have "reqBody ''index=main'' []
      = ''search='' @ ''index=main'' @ ''&exec_mode=normal&output_mode=json''"
    by (rule conjunct1)
  then have 0: "reqBody ''index=main'' []
      = ''search=index=main&exec_mode=normal&output_mode=json''"
    by simp
  from th h have 1: "form_fields (reqBody ''index=main'' []) =
        [(''search'', ''index=main''), (''exec_mode'', ''normal''), (''output_mode'', ''json'')]"
    by blast
  from Search_no_options_body [where q = "''q''" and env = example_env and c = token_client
      and w = example_world
      and req = "example_search_request ''search=q&exec_mode=normal&output_mode=json''"] s1
  have 2: "Body (example_search_request ''search=q&exec_mode=normal&output_mode=json'')
        = reqBody ''q'' []" by blast
  show ?thesis using h s1 s2 0 1 2 by blast
qed

text \<open>
  C3 as stated fails. The query \<^verbatim>\<open>x&earliest_time=1\<close> is copied into the body unescaped:
  the field \<^verbatim>\<open>search\<close> of the body is \<^verbatim>\<open>x\<close>, not the query, and the body has a field
  \<^verbatim>\<open>earliest_time\<close>. And the one-argument \<open>Search\<close> of \<^verbatim>\<open>src/internal/splunk\<close>, called
  with the query \<^verbatim>\<open>q\<close>, sends a body whose \<^verbatim>\<open>exec_mode\<close> is \<^verbatim>\<open>oneshot\<close>.
\<close>

theorem Search_no_options_counterexample:
  "\<not> (has_field ''search'' ''x&earliest_time=1'' (reqBody ''x&earliest_time=1'' [])
       \<and> has_field ''exec_mode'' ''normal'' (reqBody ''x&earliest_time=1'' [])
       \<and> has_field ''output_mode'' ''json'' (reqBody ''x&earliest_time=1'' [])
       \<and> omits_field ''earliest_time'' (reqBody ''x&earliest_time=1'' [])
       \<and> omits_field ''latest_time'' (reqBody ''x&earliest_time=1'' []))
   \<and> form_fields (reqBody ''x&earliest_time=1'' []) =
        [(''search'', ''x''), (''earliest_time'', ''1''), (''exec_mode'', ''normal''),
         (''output_mode'', ''json'')]
   \<and> map Body (sent (snd (Search_internal example_env token_client ''q'' example_world)))
        = [''search=q&exec_mode=oneshot&output_mode=json'']
   \<and> \<not> has_field ''exec_mode'' ''normal'' ''search=q&exec_mode=oneshot&output_mode=json''"
proof -
  have f: "form_fields (reqBody ''x&earliest_time=1'' []) =
        [(''search'', ''x''), (''earliest_time'', ''1''), (''exec_mode'', ''normal''),
         (''output_mode'', ''json'')]"
    by (simp add: reqBody_no_options form_fields_def form_field_def)
  have o: "\<not> omits_field ''earliest_time'' (reqBody ''x&earliest_time=1'' [])"
    by (simp add: omits_field_def f)
  have i: "map Body (sent (snd (Search_internal example_env token_client ''q'' example_world)))
        = [''search=q&exec_mode=oneshot&output_mode=json'']"
    by (subst Search_internal_example_run) (simp add: example_search_request_def)
  have n: "\<not> has_field ''exec_mode'' ''normal'' ''search=q&exec_mode=oneshot&output_mode=json''"
    by (simp add: has_field_def form_fields_def form_field_def)
  show ?thesis using f o i n by blast
qed

subsection \<open>Options of a search\<close>

lemma Search_ignored:
  "Search env c q (filter (\<lambda>opt. CHR ''='' \<in> set opt) opts) w = Search env c q opts w"
  by (simp add: Search_def reqBody_def parseOptions_ignored)

text \<open>
  C7, as amended. For every query and option list, the loop of the variadic \<open>Search\<close>
  keeps, for each of the keys \<^verbatim>\<open>exec_mode\<close>, \<^verbatim>\<open>earliest_time\<close> and \<^verbatim>\<open>latest_time\<close>, the
  value of the last option \<^verbatim>\<open>key=value\<close> with that key (\<^verbatim>\<open>normal\<close>, empty and empty when
  there is none). The body is \<^verbatim>\<open>search=q&exec_mode=v&output_mode=json\<close>, followed by
  \<^verbatim>\<open>&earliest_time=v\<close> and by \<^verbatim>\<open>&latest_time=v\<close> exactly when the value kept for the key
  is not empty. Options without \<^verbatim>\<open>=\<close> change neither the body nor the result of the
  search. The options \<^verbatim>\<open>exec_mode=blocking\<close>, \<^verbatim>\<open>earliest_time=1\<close>, \<^verbatim>\<open>latest_time=2\<close> give a
  body with all three.
\<close>

theorem Search_options:
  "execMode (parseOptions defaults opts) = last (''normal'' # supplied ''exec_mode'' opts)
   \<and> earliestTime (parseOptions defaults opts) = last ([] # supplied ''earliest_time'' opts)
   \<and> latestTime (parseOptions defaults opts) = last ([] # supplied ''latest_time'' opts)
   \<and> reqBody q opts =
        ''search='' @ q
        @ ''&exec_mode='' @ last (''normal'' # supplied ''exec_mode'' opts)
        @ ''&output_mode=json''
        @ (if last ([] # supplied ''earliest_time'' opts) = [] then []
           else ''&earliest_time='' @ last ([] # supplied ''earliest_time'' opts))
        @ (if last ([] # supplied ''latest_time'' opts) = [] then []
           else ''&latest_time='' @ last ([] # supplied ''latest_time'' opts))
   \<and> reqBody q (filter (\<lambda>opt. CHR ''='' \<in> set opt) opts) = reqBody q opts
   \<and> Search env c q (filter (\<lambda>opt. CHR ''='' \<in> set opt) opts) w = Search env c q opts w
   \<and> reqBody ''q'' [''exec_mode=blocking'', ''earliest_time=1'', ''latest_time=2'']
        = ''search=q&exec_mode=blocking&output_mode=json&earliest_time=1&latest_time=2''
   \<and> reqBody ''q'' [''invalidoption''] = reqBody ''q'' []"
proof -
  have d: "execMode defaults = ''normal''" "earliestTime defaults = []" "latestTime defaults = []"
    by (simp_all add: defaults_def)
  have e: "execMode (parseOptions defaults opts) = last (''normal'' # supplied ''exec_mode'' opts)"
    using parseOptions_supplied(1) [of defaults opts] d by simp
  have t1: "earliestTime (parseOptions defaults opts) = last ([] # supplied ''earliest_time'' opts)"
    using parseOptions_supplied(2) [of defaults opts] d by simp
  have t2: "latestTime (parseOptions defaults opts) = last ([] # supplied ''latest_time'' opts)"
    using parseOptions_supplied(3) [of defaults opts] d by simp
  have b: "reqBody q opts =
        ''search='' @ q
        @ ''&exec_mode='' @ last (''normal'' # supplied ''exec_mode'' opts)
        @ ''&output_mode=json''
        @ (if last ([] # supplied ''earliest_time'' opts) = [] then []
           else ''&earliest_time='' @ last ([] # supplied ''earliest_time'' opts))
        @ (if last ([] # supplied ''latest_time'' opts) = [] then []
           else ''&latest_time='' @ last ([] # supplied ''latest_time'' opts))"
    unfolding reqBody_eq [of q opts] e t1 t2 by simp
  have i: "reqBody q (filter (\<lambda>opt. CHR ''='' \<in> set opt) opts) = reqBody q opts"
    by (simp add: reqBody_def parseOptions_ignored)
  have x: "reqBody ''q'' [''exec_mode=blocking'', ''earliest_time=1'', ''latest_time=2'']
        = ''search=q&exec_mode=blocking&output_mode=json&earliest_time=1&latest_time=2''"
    by (simp add: reqBody_def params_def defaults_def applyOption_def SplitN2_def)
  have y: "reqBody ''q'' [''invalidoption''] = reqBody ''q'' []"
    by (simp add: reqBody_def applyOption_ignored)
  show ?thesis using e t1 t2 b i x y Search_ignored [of env c q opts w] by blast
qed

text \<open>
  C7 as stated fails. The option \<^verbatim>\<open>earliest_time=\<close> supplies the recognized key with an
  empty value; the guard \<^verbatim>\<open>if earliestTime != ""\<close> then leaves the field out, and
  \<^verbatim>\<open>earliest_time\<close> appears nowhere in the body.
\<close>

theorem Search_options_counterexample:
  "reqBody ''q'' [''earliest_time=''] = ''search=q&exec_mode=normal&output_mode=json''
   \<and> \<not> sublist ''earliest_time'' (reqBody ''q'' [''earliest_time=''])
   \<and> omits_field ''earliest_time'' (reqBody ''q'' [''earliest_time=''])"
proof -
  have b: "reqBody ''q'' [''earliest_time=''] = ''search=q&exec_mode=normal&output_mode=json''"
    by (simp add: reqBody_def params_def defaults_def applyOption_def SplitN2_def)
  have s: "\<not> sublist ''earliest_time'' ''search=q&exec_mode=normal&output_mode=json''"
    by code_simp
  have o: "omits_field ''earliest_time'' ''search=q&exec_mode=normal&output_mode=json''"
    by (simp add: omits_field_def form_fields_def form_field_def)
  show ?thesis using b s o by simp
qed


subsection \<open>No escaping of the query\<close>

lemma reqBody_prefix: "prefix (''search='' @ q @ ''&'') (reqBody q opts)"
  unfolding reqBody_eq [of q opts] by (simp add: prefix_def)

lemma injected_fields:
  "form_fields (reqBody ''x&exec_mode=blocking'' []) =
     [(''search'', ''x''), (''exec_mode'', ''blocking''), (''exec_mode'', ''normal''),
      (''output_mode'', ''json'')]"
  by (simp add: reqBody_no_options form_fields_def form_field_def)

text \<open>
  C10. For every query and option list, the body built by the variadic \<open>Search\<close>
  starts with \<^verbatim>\<open>search=\<close>, the query byte for byte, and \<^verbatim>\<open>&\<close>; it is the body of the
  request issued. \<open>prepareHttpRequest\<close> copies the query in the same way. So a query
  with an \<^verbatim>\<open>&\<close> changes the fields of the body: for \<^verbatim>\<open>x&exec_mode=blocking\<close> the field
  \<^verbatim>\<open>search\<close> is \<^verbatim>\<open>x\<close> and a field \<^verbatim>\<open>exec_mode=blocking\<close> stands before the library's
  own.
\<close>

theorem query_not_escaped:
  "prefix (''search='' @ q @ ''&'') (reqBody q opts)
   \<and> (sent (snd (Search env c q opts w)) = sent w @ [req] \<longrightarrow> Body req = reqBody q opts)
   \<and> (prepareHttpRequest env c q = Inr req' \<longrightarrow>
        Body req' = ''search='' @ q @ ''&exec_mode=oneshot&output_mode=json'')
   \<and> (\<exists>q'. CHR ''&'' \<in> set q' \<and> \<not> has_field ''search'' q' (reqBody q' [])
          \<and> has_field ''exec_mode'' ''blocking'' (reqBody q' []))
   \<and> form_fields (reqBody ''x&exec_mode=blocking'' []) =
        [(''search'', ''x''), (''exec_mode'', ''blocking''), (''exec_mode'', ''normal''),
         (''output_mode'', ''json'')]"
proof (intro conjI impI)
  show "prefix (''search='' @ q @ ''&'') (reqBody q opts)" by (rule reqBody_prefix)
next
  assume "sent (snd (Search env c q opts w)) = sent w @ [req]"
  then show "Body req = reqBody q opts" by (rule Search_body)
next
  assume "prepareHttpRequest env c q = Inr req'"
  then show "Body req' = ''search='' @ q @ ''&exec_mode=oneshot&output_mode=json''"
    by (rule prepareHttpRequest_body)
next
  show "\<exists>q'. CHR ''&'' \<in> set q' \<and> \<not> has_field ''search'' q' (reqBody q' [])
          \<and> has_field ''exec_mode'' ''blocking'' (reqBody q' [])"
    by (intro exI [of _ "''x&exec_mode=blocking''"]) (simp add: has_field_def injected_fields)
next
  show "form_fields (reqBody ''x&exec_mode=blocking'' []) =
        [(''search'', ''x''), (''exec_mode'', ''blocking''), (''exec_mode'', ''normal''),
         (''output_mode'', ''json'')]"
    by (rule injected_fields)
qed

lemma prepareHttpRequest_example:
  "prepareHttpRequest example_env token_client ''a&b=c''
     = Inr (example_search_request ''search=a&b=c&exec_mode=oneshot&output_mode=json'')"
  by (simp add: prepareHttpRequest_def NewRequest_def setAuthHeader_def Header_Set_def
      example_search_request_def example_env_def token_client_def)

lemma Search_injection_run:
  "Search example_env token_client ''a&b=c'' [] example_world =
     (Inr (),
      \<lparr>sent = [example_search_request ''search=a&b=c&exec_mode=normal&output_mode=json''],
       marshalled = [], decoded = [''{}'']\<rparr>)"
  by (simp add: Search_unfold setAuthHeader_def Header_Set_def doSearch_def
      parseSplunkSearchResults_def reqBody_def params_def defaults_def
      example_search_request_def example_env_def example_world_def token_client_def)

theorem query_not_escaped_witness:
  "sent (snd (Search example_env token_client ''a&b=c'' [] example_world))
     = sent example_world @ [example_search_request ''search=a&b=c&exec_mode=normal&output_mode=json'']
   \<and> Body (example_search_request ''search=a&b=c&exec_mode=normal&output_mode=json'')
       = reqBody ''a&b=c'' []
   \<and> prepareHttpRequest example_env token_client ''a&b=c''
       = Inr (example_search_request ''search=a&b=c&exec_mode=oneshot&output_mode=json'')
   \<and> Body (example_search_request ''search=a&b=c&exec_mode=oneshot&output_mode=json'')
       = ''search=a&b=c&exec_mode=oneshot&output_mode=json''"
proof -
  let ?r1 = "example_search_request ''search=a&b=c&exec_mode=normal&output_mode=json''"
  let ?r2 = "example_search_request ''search=a&b=c&exec_mode=oneshot&output_mode=json''"
  have s1: "sent (snd (Search example_env token_client ''a&b=c'' [] example_world))
     = sent example_world @ [?r1]"
    by (subst Search_injection_run) (simp add: example_world_def)
  note s2 = prepareHttpRequest_example
  note th = query_not_escaped [where q = "''a&b=c''" and opts = "[]" and env = example_env
      and c = token_client and w = example_world and req = ?r1 and req' = ?r2]
  from th s1 have 1: "Body ?r1 = reqBody ''a&b=c'' []" by blast
  from th s2 have "Body ?r2 = ''search='' @ ''a&b=c'' @ ''&exec_mode=oneshot&output_mode=json''"
    by blast
  then have 2: "Body ?r2 = ''search=a&b=c&exec_mode=oneshot&output_mode=json''" by simp
  show ?thesis using s1 s2 1 2 by blast
qed

subsection \<open>The password of a constructed client\<close>

text \<open>
  C2 fails on the code. \<open>NewClient\<close> of the library, called as in the test
  \<^verbatim>\<open>TestSearch_Success\<close> of \<^verbatim>\<open>src/internal/splunk/splunk_test.go\<close>, returns a client
  whose password is empty, where \<open>NewClient_main\<close> stores it. A search with that
  client ends in the authentication error before any request; with the password
  stored, the same search succeeds.
\<close>

theorem NewClient_drops_password:
  "NewClient ''http://localhost'' ''user'' ''pass'' []
     = Inr \<lparr>BaseURL = ''http://localhost'', Username = ''user'', Password = [], Token = []\<rparr>
   \<and> NewClient_main ''http://localhost'' ''user'' ''pass'' []
     = Inr \<lparr>BaseURL = ''http://localhost'', Username = ''user'', Password = ''pass'', Token = []\<rparr>
   \<and> Search example_env
        \<lparr>BaseURL = ''http://localhost'', Username = ''user'', Password = [], Token = []\<rparr>
        ''search index=_internal'' [] example_world
     = (Inl ErrNoAuth, example_world)
   \<and> Search_internal example_env
        \<lparr>BaseURL = ''http://localhost'', Username = ''user'', Password = [], Token = []\<rparr>
        ''search index=_internal'' example_world
     = (Inl ErrNoAuth, example_world)
   \<and> fst (Search example_env
        \<lparr>BaseURL = ''http://localhost'', Username = ''user'', Password = ''pass'', Token = []\<rparr>
        ''search index=_internal'' [] example_world)
     = Inr ()"
  by (simp add: NewClient_def NewClient_main_def Search_unfold Search_internal_unfold
      setAuthHeader_def SetBasicAuth_def Header_Set_def doSearch_def parseSplunkSearchResults_def
      example_env_def example_world_def)

end
